theory Spec2Isabelle
  imports Complex_Main "HOL-Library.Word"
begin

section \<open>Strings\<close>

text \<open>
  The server is one Express program (\<^verbatim>\<open>server.js\<close>). Its strings are modelled as HOL
  strings, one \<^typ>\<open>char\<close> per code unit below 256. In that range the white space of
  \<^verbatim>\<open>String.prototype.trim\<close>, of \<^verbatim>\<open>parseInt\<close> and of the regular expression
  class \<^verbatim>\<open>\s\<close> is TAB, LF, VT, FF, CR, SP and NBSP, and the line terminators, which
  the regular expression \<^verbatim>\<open>.\<close> does not match, are LF and CR.
\<close>

definition is_space :: "char \<Rightarrow> bool" where
  "is_space c \<longleftrightarrow>
     c \<in> {CHR 0x09, CHR 0x0A, CHR 0x0B, CHR 0x0C, CHR 0x0D, CHR 0x20, CHR 0xA0}"

definition is_line_terminator :: "char \<Rightarrow> bool" where
  "is_line_terminator c \<longleftrightarrow> c \<in> {CHR 0x0A, CHR 0x0D}"

text \<open>\<^verbatim>\<open>s.trim()\<close>: white space removed from both ends.\<close>

definition trim :: "string \<Rightarrow> string" where
  "trim s = rev (dropWhile is_space (rev (dropWhile is_space s)))"

text \<open>
  \<^verbatim>\<open>a || b\<close> on strings: the empty string is falsy. The second form is for a
  value that may be \<^verbatim>\<open>undefined\<close> (\<open>None\<close>), which is falsy too.
\<close>

definition or_str :: "string \<Rightarrow> string \<Rightarrow> string" where
  "or_str a b = (if a = [] then b else a)"

definition opt_or :: "string option \<Rightarrow> string \<Rightarrow> string" where
  "opt_or a b = (case a of None \<Rightarrow> b | Some s \<Rightarrow> or_str s b)"

text \<open>\<^verbatim>\<open>s.split(d)\<close> for a separator of one character; it never returns an empty array.\<close>

fun split_on :: "char \<Rightarrow> string \<Rightarrow> string list" where
  "split_on d [] = [[]]"
| "split_on d (c # cs) =
     (if c = d then [] # split_on d cs
      else (case split_on d cs of p # ps \<Rightarrow> (c # p) # ps | [] \<Rightarrow> [[c]]))"

text \<open>\<^verbatim>\<open>xs[i]\<close>: \<^verbatim>\<open>undefined\<close> (\<open>None\<close>) outside the array.\<close>

definition nth_opt :: "'a list \<Rightarrow> nat \<Rightarrow> 'a option" where
  "nth_opt xs i = (if i < length xs then Some (xs ! i) else None)"

section \<open>The filename hint parser\<close>

text \<open>
  \<^verbatim>\<open>name.replace(/\.[^/.]+$/, '')\<close>. The expression matches at a dot that is followed,
  up to the end of the input, by one or more characters other than \<^verbatim>\<open>/\<close> and
  \<^verbatim>\<open>.\<close>; \<open>replace\<close> removes the leftmost match.
\<close>

definition ext_here :: "string \<Rightarrow> bool" where
  "ext_here s =
     (case s of
        [] \<Rightarrow> False
      | c # cs \<Rightarrow> c = CHR ''.'' \<and> cs \<noteq> [] \<and> list_all (\<lambda>x. x \<noteq> CHR ''/'' \<and> x \<noteq> CHR ''.'') cs)"

fun strip_ext :: "string \<Rightarrow> string" where
  "strip_ext [] = []"
| "strip_ext (c # cs) = (if ext_here (c # cs) then [] else c # strip_ext cs)"

text \<open>
  \<^verbatim>\<open>withoutExt.match(/(.*?)-(.*?)(?:\s*\[(.*?)\])?$/)\<close>, one function for each part of
  the expression, each following the order in which a backtracking matcher tries its
  alternatives.

  \<open>bracket_body\<close> is \<^verbatim>\<open>(.*?)\]$\<close>, after the opening bracket: the lazy group takes no
  character when the rest is the closing bracket at the end of the input, and otherwise
  one more character that is not a line terminator.
\<close>

fun bracket_body :: "string \<Rightarrow> string option" where
  "bracket_body [] = None"
| "bracket_body (c # cs) =
     (if c = CHR '']'' \<and> cs = [] then Some []
      else if is_line_terminator c then None
      else map_option ((#) c) (bracket_body cs))"

text \<open>
  \<open>genre_group\<close> is \<^verbatim>\<open>\s*\[(.*?)\]$\<close>: the greedy \<^verbatim>\<open>\s*\<close> takes a white space
  character first and gives it back when the rest fails.
\<close>

definition open_bracket :: "string \<Rightarrow> string option" where
  "open_bracket s =
     (case s of [] \<Rightarrow> None | c # cs \<Rightarrow> if c = CHR ''['' then bracket_body cs else None)"

fun genre_group :: "string \<Rightarrow> string option" where
  "genre_group [] = None"
| "genre_group (c # cs) =
     (if is_space c then
        (case genre_group cs of Some g \<Rightarrow> Some g | None \<Rightarrow> open_bracket (c # cs))
      else open_bracket (c # cs))"

text \<open>
  \<open>title_rest\<close> is \<^verbatim>\<open>(.*?)(?:\s*\[(.*?)\])?$\<close>: at each length of the lazy group the
  optional group is tried first, then the end of the input without it, then one more
  character. The third capture is \<open>None\<close> (\<^verbatim>\<open>undefined\<close>) when the optional group
  did not take part.
\<close>

fun title_rest :: "string \<Rightarrow> (string \<times> string option) option" where
  "title_rest s =
     (case genre_group s of
        Some g \<Rightarrow> Some ([], Some g)
      | None \<Rightarrow>
          (case s of
             [] \<Rightarrow> Some ([], None)
           | c # cs \<Rightarrow>
               if is_line_terminator c then None
               else map_option (\<lambda>(t, g). (c # t, g)) (title_rest cs)))"

text \<open>
  \<open>artist_from\<close> is the whole expression tried at one start position: the lazy first
  group stops at the first hyphen after which the rest matches.
\<close>

fun artist_from :: "string \<Rightarrow> (string \<times> string \<times> string option) option" where
  "artist_from [] = None"
| "artist_from (c # cs) =
     (case (if c = CHR ''-'' then title_rest cs else None) of
        Some (t, g) \<Rightarrow> Some ([], t, g)
      | None \<Rightarrow>
          if is_line_terminator c then None
          else map_option (\<lambda>(a, t, g). (c # a, t, g)) (artist_from cs))"

text \<open>\<open>match_hint\<close> is the search of \<open>match\<close>: the leftmost start position that matches.\<close>

fun match_hint :: "string \<Rightarrow> (string \<times> string \<times> string option) option" where
  "match_hint [] = artist_from []"
| "match_hint (c # cs) =
     (case artist_from (c # cs) of Some r \<Rightarrow> Some r | None \<Rightarrow> match_hint cs)"

record hints =
  title :: string
  artist :: string
  genre :: string

definition parseFromFilename :: "string \<Rightarrow> hints" where
  "parseFromFilename name =
     (let withoutExt = strip_ext name in
      case match_hint withoutExt of
        Some (g1, g2, g3) \<Rightarrow>
          \<lparr>title = trim g2, artist = trim g1, genre = trim (opt_or g3 [])\<rparr>
      | None \<Rightarrow> \<lparr>title = withoutExt, artist = [], genre = []\<rparr>)"

section \<open>Numbers\<close>

text \<open>
  The numbers of the range branch are doubles. \<open>Num i\<close> is the integer \<open>i\<close>, used for
  integers up to \<^verbatim>\<open>Number.MAX_SAFE_INTEGER\<close> in magnitude, where doubles are exact;
  \<open>Huge\<close> is a finite double beyond that, whose value is not followed; the other
  values are \<^verbatim>\<open>NaN\<close> and the two infinities. \<open>js_int\<close> is the double nearest to an
  integer: integers from \<open>2^1024 - 2^970\<close> on round to infinity.
\<close>

datatype number = NaN | Num int | Huge | PosInfinity | NegInfinity

definition max_safe_integer :: int where
  "max_safe_integer = 2 ^ 53 - 1"

definition js_int :: "int \<Rightarrow> number" where
  "js_int i =
     (if \<bar>i\<bar> \<le> max_safe_integer then Num i
      else if \<bar>i\<bar> < 2 ^ 1024 - 2 ^ 970 then Huge
      else if 0 < i then PosInfinity else NegInfinity)"

definition is_digit :: "char \<Rightarrow> bool" where
  "is_digit c \<longleftrightarrow> c \<in> set ''0123456789''"

definition digit_val :: "char \<Rightarrow> nat" where
  "digit_val c = (of_char c :: nat) - 48"

definition decimal :: "string \<Rightarrow> nat" where
  "decimal ds = foldl (\<lambda>a c. 10 * a + digit_val c) 0 ds"

text \<open>
  \<^verbatim>\<open>parseInt(s, 10)\<close>: leading white space is skipped, one sign is read, then the
  longest run of decimal digits; no digit gives \<^verbatim>\<open>NaN\<close>, and the integer read is
  returned as a double.
\<close>

definition parseInt :: "string \<Rightarrow> number" where
  "parseInt s =
     (let s1 = dropWhile is_space s;
          neg = (case s1 of [] \<Rightarrow> False | c # _ \<Rightarrow> c = CHR ''-'');
          s2 = (case s1 of [] \<Rightarrow> [] | c # r \<Rightarrow> if c = CHR ''-'' \<or> c = CHR ''+'' then r else s1);
          ds = takeWhile is_digit s2
      in if ds = [] then NaN
         else js_int ((if neg then - 1 else 1) * int (decimal ds)))"

text \<open>
  A natural number below \<open>2^53\<close> inside a template string: its decimal digits.
\<close>

function show_nat :: "nat \<Rightarrow> string" where
  "show_nat n =
     (if n < 10 then [''0123456789'' ! n]
      else show_nat (n div 10) @ [''0123456789'' ! (n mod 10)])"
  by pat_completeness auto
termination
  by (relation "measure (\<lambda>n. n)") auto

declare show_nat.simps [simp del]

text \<open>\<^verbatim>\<open>s.replace(/bytes=/, '')\<close>: the first occurrence of the text is removed.\<close>

fun starts_with :: "string \<Rightarrow> string \<Rightarrow> bool" where
  "starts_with [] s = True"
| "starts_with (p # ps) [] = False"
| "starts_with (p # ps) (c # cs) = (p = c \<and> starts_with ps cs)"

fun remove_first :: "string \<Rightarrow> string \<Rightarrow> string" where
  "remove_first pat [] = []"
| "remove_first pat (c # cs) =
     (if starts_with pat (c # cs) then drop (length pat) (c # cs)
      else c # remove_first pat cs)"

section \<open>The store and the disk\<close>

text \<open>
  A track is the JSON object the handlers build: \<open>path\<close> is present on uploaded
  files and \<open>src\<close> on registered URLs (\<open>None\<close> is an absent field). The store is
  the object kept in \<^verbatim>\<open>db.json\<close>: the tracks in insertion order and the playlists
  by id.
\<close>

type_synonym byte = "8 word"

record track =
  t_id :: string
  t_type :: string
  t_path :: "string option"
  t_src :: "string option"
  t_title :: string
  t_artist :: string
  t_album :: string
  t_genre :: string
  t_duration :: real

record playlist =
  pl_id :: string
  pl_name :: string
  trackIds :: "string list"

record db =
  tracks :: "track list"
  playlists :: "string \<rightharpoonup> playlist"

text \<open>
  The disk holds the data file, absent or with some content of type \<open>'d\<close>, and the
  files of the upload directory by the name stored in a track's \<open>path\<close>.
  Directories and names that leave the upload directory are not modelled.
\<close>

record 'd world =
  data_file :: "'d option"
  upload_dir :: "string \<rightharpoonup> byte list"

text \<open>
  What the program takes from its libraries is a parameter: \<^verbatim>\<open>JSON.parse\<close>
  (\<open>None\<close> when it throws), \<^verbatim>\<open>JSON.stringify\<close>, \<^verbatim>\<open>mime.getType\<close> and
  \<^verbatim>\<open>mm.parseFile\<close> (\<open>None\<close> when it throws). The parsed document is taken to have
  the shape of a store.
\<close>

record metadata =
  common_title :: "string option"
  common_artist :: "string option"
  common_album :: "string option"
  common_genre :: "string list option"
  format_duration :: "real option"

record 'd lib =
  JSON_parse :: "'d \<Rightarrow> db option"
  JSON_stringify :: "db \<Rightarrow> 'd"
  mime_getType :: "string \<Rightarrow> string option"
  mm_parseFile :: "byte list \<Rightarrow> metadata option"

definition empty_db :: db where
  "empty_db = \<lparr>tracks = [], playlists = Map.empty\<rparr>"

text \<open>
  \<open>readDB\<close>: \<^verbatim>\<open>fs.readFile\<close> throws when the file is absent and \<^verbatim>\<open>JSON.parse\<close>
  when the text is not JSON; the \<^verbatim>\<open>catch\<close> returns the empty store for both.
\<close>

definition readDB :: "'d lib \<Rightarrow> 'd world \<Rightarrow> db" where
  "readDB L w =
     (case data_file w of
        None \<Rightarrow> empty_db
      | Some raw \<Rightarrow> (case JSON_parse L raw of None \<Rightarrow> empty_db | Some d \<Rightarrow> d))"

definition writeDB :: "'d lib \<Rightarrow> db \<Rightarrow> 'd world \<Rightarrow> 'd world" where
  "writeDB L d w = w\<lparr>data_file := Some (JSON_stringify L d)\<rparr>"

section \<open>Responses\<close>

record headers =
  Content_Range :: "string option"
  Accept_Ranges :: "string option"
  Content_Length :: number
  Content_Type :: string

text \<open>
  The body of a response: nothing (\<^verbatim>\<open>res.status(n).end()\<close>), one of the JSON objects
  the handlers send, or the headers given to \<^verbatim>\<open>writeHead\<close> with the bytes piped
  after them. \<open>OkPrototype\<close> is \<^verbatim>\<open>{ok: true, playlist: p}\<close> where \<open>p\<close> is
  \<^verbatim>\<open>Object.prototype\<close> itself, serialised with whatever enumerable members it has.
\<close>

datatype payload =
    NoBody
  | Error string
  | Ok
  | OkTrack track
  | OkTracks "track list"
  | OkPlaylist playlist
  | TrackList "track list"
  | OkPrototype
  | PlaylistMap "string \<rightharpoonup> playlist"
  | Audio headers "byte list"

record response =
  status :: nat
  payload :: payload

text \<open>
  An exception that leaves a handler: nothing catches it and no response is sent.
\<close>

datatype exception = TypeError | RangeError

section \<open>Track handlers\<close>

text \<open>
  Each handler takes the libraries, what the request carries and the disk, and returns
  the response with the disk it leaves. A value of \<^verbatim>\<open>uuidv4()\<close> is an argument.

  \<^verbatim>\<open>POST /api/music/upload\<close>. The storage engine has written every file under
  \<^verbatim>\<open>${Date.now()}-${file.originalname}\<close> before the handler runs; \<open>stored_at\<close> is
  that clock value. It passes on at most twenty files, each paired here with the id
  drawn for it.
\<close>

record upload_file =
  originalname :: string
  stored_at :: nat
  content :: "byte list"

definition storage_filename :: "upload_file \<Rightarrow> string" where
  "storage_filename f = show_nat (stored_at f) @ ''-'' @ originalname f"

definition new_track :: "'d lib \<Rightarrow> string \<times> upload_file \<Rightarrow> track" where
  "new_track L uf =
     (let uuid = fst uf; f = snd uf;
          hint = parseFromFilename (originalname f);
          parsed = mm_parseFile L (content f);
          duration = (case parsed of
                        None \<Rightarrow> 0
                      | Some md \<Rightarrow> (case format_duration md of None \<Rightarrow> 0 | Some d \<Rightarrow> d));
          mtitle = (case parsed of
                      None \<Rightarrow> title hint
                    | Some md \<Rightarrow> opt_or (common_title md) (or_str (title hint) (originalname f)));
          martist = (case parsed of
                       None \<Rightarrow> artist hint
                     | Some md \<Rightarrow> opt_or (common_artist md) (artist hint));
          malbum = (case parsed of
                      None \<Rightarrow> []
                    | Some md \<Rightarrow> opt_or (common_album md) []);
          mgenre = (case parsed of
                      None \<Rightarrow> genre hint
                    | Some md \<Rightarrow>
                        (case common_genre md of
                           Some gs \<Rightarrow> (case gs of [] \<Rightarrow> [] | g # _ \<Rightarrow> or_str g [])
                         | None \<Rightarrow> or_str (genre hint) []))
      in \<lparr>t_id = uuid, t_type = ''file'', t_path = Some (storage_filename f), t_src = None,
          t_title = or_str mtitle (originalname f), t_artist = or_str martist [],
          t_album = or_str malbum [], t_genre = or_str mgenre [], t_duration = duration\<rparr>)"

fun store_files :: "(string \<times> upload_file) list \<Rightarrow> (string \<rightharpoonup> byte list) \<Rightarrow> (string \<rightharpoonup> byte list)" where
  "store_files [] dir = dir"
| "store_files (uf # ufs) dir =
     store_files ufs (dir(storage_filename (snd uf) \<mapsto> content (snd uf)))"

definition post_music_upload ::
  "'d lib \<Rightarrow> (string \<times> upload_file) list \<Rightarrow> 'd world \<Rightarrow> response \<times> 'd world" where
  "post_music_upload L files w =
     (let w1 = w\<lparr>upload_dir := store_files files (upload_dir w)\<rparr>;
          db = readDB L w1;
          created = map (new_track L) files;
          db' = db\<lparr>tracks := tracks db @ created\<rparr>
      in (\<lparr>status = 200, payload = OkTracks created\<rparr>, writeDB L db' w1))"

text \<open>\<^verbatim>\<open>POST /api/music/url\<close>; every field of the body may be missing.\<close>

record url_body =
  b_url :: "string option"
  b_title :: "string option"
  b_artist :: "string option"
  b_album :: "string option"
  b_genre :: "string option"

definition post_music_url ::
  "'d lib \<Rightarrow> string \<Rightarrow> url_body \<Rightarrow> 'd world \<Rightarrow> response \<times> 'd world" where
  "post_music_url L uuid body w =
     (let url = opt_or (b_url body) [] in
      if url = [] then (\<lparr>status = 400, payload = Error ''url required''\<rparr>, w)
      else
        let db = readDB L w;
            name = or_str (last (split_on CHR ''/'' url)) ''Stream'';
            hint = parseFromFilename name;
            track =
              \<lparr>t_id = uuid, t_type = ''url'', t_path = None, t_src = Some url,
               t_title = or_str (opt_or (b_title body) []) (or_str (title hint) name),
               t_artist = or_str (opt_or (b_artist body) []) (or_str (artist hint) []),
               t_album = or_str (opt_or (b_album body) []) [],
               t_genre = or_str (opt_or (b_genre body) []) (or_str (genre hint) []),
               t_duration = 0\<rparr>;
            db' = db\<lparr>tracks := tracks db @ [track]\<rparr>
        in (\<lparr>status = 200, payload = OkTrack track\<rparr>, writeDB L db' w))"

text \<open>\<^verbatim>\<open>GET /api/music\<close>.\<close>

definition get_music :: "'d lib \<Rightarrow> 'd world \<Rightarrow> response \<times> 'd world" where
  "get_music L w = (\<lparr>status = 200, payload = TrackList (tracks (readDB L w))\<rparr>, w)"

text \<open>
  \<^verbatim>\<open>DELETE /api/music/:id\<close>. \<open>findIndex\<close> gives the first position that satisfies the
  test and \<open>splice1\<close> is \<^verbatim>\<open>splice(idx, 1)\<close>. A failure of \<^verbatim>\<open>fs.unlink\<close> is caught and
  ignored; \<open>unlink_ok\<close> says whether the call removes the file.
\<close>

fun findIndex :: "('a \<Rightarrow> bool) \<Rightarrow> 'a list \<Rightarrow> nat option" where
  "findIndex P [] = None"
| "findIndex P (x # xs) = (if P x then Some 0 else map_option Suc (findIndex P xs))"

definition splice1 :: "nat \<Rightarrow> 'a list \<Rightarrow> 'a list" where
  "splice1 idx xs = take idx xs @ drop (Suc idx) xs"

definition unlink_track :: "string \<Rightarrow> playlist \<Rightarrow> playlist" where
  "unlink_track tid pl = pl\<lparr>trackIds := filter (\<lambda>x. x \<noteq> tid) (trackIds pl)\<rparr>"

definition delete_music ::
  "'d lib \<Rightarrow> bool \<Rightarrow> string \<Rightarrow> 'd world \<Rightarrow> response \<times> 'd world" where
  "delete_music L unlink_ok tid w =
     (let db = readDB L w in
      case findIndex (\<lambda>t. t_id t = tid) (tracks db) of
        None \<Rightarrow> (\<lparr>status = 404, payload = Error ''not found''\<rparr>, w)
      | Some idx \<Rightarrow>
          let t = tracks db ! idx;
              db' = \<lparr>tracks = splice1 idx (tracks db),
                     playlists = (\<lambda>k. map_option (unlink_track tid) (playlists db k))\<rparr>;
              w' = (if t_type t = ''file'' \<and> opt_or (t_path t) [] \<noteq> [] \<and> unlink_ok
                    then w\<lparr>upload_dir := (upload_dir w)(opt_or (t_path t) [] := None)\<rparr>
                    else w)
          in (\<lparr>status = 200, payload = Ok\<rparr>, writeDB L db' w'))"

text \<open>
  \<^verbatim>\<open>GET /api/music/stream/:id\<close>. \<^verbatim>\<open>path.join\<close> throws a \<^verbatim>\<open>TypeError\<close> on a track
  without \<open>path\<close>, and \<^verbatim>\<open>statSync\<close> throws when the file is absent; only the second
  is caught. \<^verbatim>\<open>mime.getType\<close> looks at the extension. A file has fewer than \<open>2^53\<close>
  bytes, so that its size is exact.

  \<^verbatim>\<open>createReadStream(full, {start, end})\<close> first checks its options, \<open>checked_span\<close>:
  \<open>start\<close> must be an integer from 0 to \<^verbatim>\<open>Number.MAX_SAFE_INTEGER\<close>, and \<open>end\<close> either
  infinity or such an integer not below \<open>start\<close>; otherwise it throws a
  \<^verbatim>\<open>RangeError\<close>. It then reads the bytes from \<open>start\<close> to \<open>end\<close>, both inclusive and
  counted from 0, and stops early at the end of the file.

  In the range branch \<^verbatim>\<open>writeHead\<close> only records the status and the headers; they are
  sent with the first bytes piped. When \<^verbatim>\<open>createReadStream\<close> throws, the exception
  leaves the handler and nothing is sent, so the handler is modelled with the check
  first and the headers built for the span that passed it: \<open>range_headers\<close> is the
  object given to \<^verbatim>\<open>writeHead\<close>, with \<^verbatim>\<open>chunk = (end - start) + 1\<close>.
\<close>

datatype span = Span nat "nat option"

definition checked_span :: "number \<Rightarrow> number \<Rightarrow> span option" where
  "checked_span start endv =
     (case start of
        Num s \<Rightarrow>
          if s < 0 \<or> max_safe_integer < s then None
          else
            (case endv of
               Num e \<Rightarrow>
                 if e < 0 \<or> max_safe_integer < e \<or> e < s then None
                 else Some (Span (nat s) (Some (nat e)))
             | PosInfinity \<Rightarrow> Some (Span (nat s) None)
             | _ \<Rightarrow> None)
      | _ \<Rightarrow> None)"

fun createReadStream :: "byte list \<Rightarrow> span \<Rightarrow> byte list" where
  "createReadStream bytes (Span s (Some e)) = take (Suc e - s) (drop s bytes)"
| "createReadStream bytes (Span s None) = drop s bytes"

fun range_headers :: "span \<Rightarrow> nat \<Rightarrow> string \<Rightarrow> headers" where
  "range_headers (Span s (Some e)) tot contentType =
     \<lparr>Content_Range = Some (''bytes '' @ show_nat s @ ''-'' @ show_nat e @ ''/'' @ show_nat tot),
      Accept_Ranges = Some ''bytes'',
      Content_Length = Num (int e - int s + 1),
      Content_Type = contentType\<rparr>"
| "range_headers (Span s None) tot contentType =
     \<lparr>Content_Range = Some (''bytes '' @ show_nat s @ ''-Infinity/'' @ show_nat tot),
      Accept_Ranges = Some ''bytes'',
      Content_Length = PosInfinity,
      Content_Type = contentType\<rparr>"

definition get_stream ::
  "'d lib \<Rightarrow> string \<Rightarrow> string option \<Rightarrow> 'd world \<Rightarrow> exception + response" where
  "get_stream L tid range_header w =
     (let db = readDB L w in
      case find (\<lambda>x. t_id x = tid) (tracks db) of
        None \<Rightarrow> Inr \<lparr>status = 404, payload = NoBody\<rparr>
      | Some t \<Rightarrow>
          if t_type t \<noteq> ''file'' then Inr \<lparr>status = 400, payload = NoBody\<rparr>
          else
            (case t_path t of
               None \<Rightarrow> Inl TypeError
             | Some full \<Rightarrow>
                 (case upload_dir w full of
                    None \<Rightarrow> Inr \<lparr>status = 404, payload = NoBody\<rparr>
                  | Some bytes \<Rightarrow>
                      let total = length bytes;
                          contentType = opt_or (mime_getType L full) ''audio/mpeg''
                      in if opt_or range_header [] \<noteq> [] then
                           let parts = split_on CHR ''-'' (remove_first ''bytes='' (opt_or range_header []));
                               start = parseInt (opt_or (nth_opt parts 0) []);
                               endv = (if opt_or (nth_opt parts 1) [] \<noteq> []
                                       then parseInt (opt_or (nth_opt parts 1) [])
                                       else Num (int total - 1))
                           in (case checked_span start endv of
                                 None \<Rightarrow> Inl RangeError
                               | Some sp \<Rightarrow>
                                   Inr \<lparr>status = 206,
                                        payload = Audio (range_headers sp total contentType)
                                                        (createReadStream bytes sp)\<rparr>)
                         else
                           Inr \<lparr>status = 200,
                                payload = Audio
                                  \<lparr>Content_Range = None, Accept_Ranges = None,
                                   Content_Length = Num (int total), Content_Type = contentType\<rparr>
                                  bytes\<rparr>)))"

section \<open>Playlist handlers\<close>

text \<open>\<^verbatim>\<open>GET /api/playlists\<close>.\<close>

definition get_playlists :: "'d lib \<Rightarrow> 'd world \<Rightarrow> response \<times> 'd world" where
  "get_playlists L w = (\<lparr>status = 200, payload = PlaylistMap (playlists (readDB L w))\<rparr>, w)"

text \<open>\<^verbatim>\<open>POST /api/playlists\<close>; \<open>name\<close> may be missing from the body.\<close>

definition post_playlist ::
  "'d lib \<Rightarrow> string \<Rightarrow> string option \<Rightarrow> 'd world \<Rightarrow> response \<times> 'd world" where
  "post_playlist L uuid name w =
     (if opt_or name [] = [] \<or> trim (opt_or name []) = []
      then (\<lparr>status = 400, payload = Error ''name required''\<rparr>, w)
      else
        let db = readDB L w;
            pl = \<lparr>pl_id = uuid, pl_name = trim (opt_or name []), trackIds = []\<rparr>;
            db' = db\<lparr>playlists := (playlists db)(uuid \<mapsto> pl)\<rparr>
        in (\<lparr>status = 200, payload = OkPlaylist pl\<rparr>, writeDB L db' w))"

text \<open>
  The other playlist handlers read \<^verbatim>\<open>db.playlists[id]\<close>. The playlists are a plain
  object, so the read finds a playlist stored under the id, or else a member inherited
  from \<^verbatim>\<open>Object.prototype\<close>: one of its methods, or the prototype itself under
  \<^verbatim>\<open>__proto__\<close>. An inherited member passes the test \<^verbatim>\<open>!pl\<close>, its \<open>trackIds\<close> is
  \<^verbatim>\<open>undefined\<close>, and it is not a member of the store that \<^verbatim>\<open>writeDB\<close> serialises.
\<close>

definition object_prototype_methods :: "string list" where
  "object_prototype_methods =
     [''constructor'', ''__defineGetter__'', ''__defineSetter__'', ''hasOwnProperty'',
      ''__lookupGetter__'', ''__lookupSetter__'', ''isPrototypeOf'', ''propertyIsEnumerable'',
      ''toString'', ''valueOf'', ''toLocaleString'']"

datatype member = Own playlist | Method | Prototype | Missing

definition playlist_member :: "(string \<rightharpoonup> playlist) \<Rightarrow> string \<Rightarrow> member" where
  "playlist_member ps k =
     (case ps k of
        Some pl \<Rightarrow> Own pl
      | None \<Rightarrow>
          if k \<in> set object_prototype_methods then Method
          else if k = ''__proto__'' then Prototype
          else Missing)"

text \<open>
  \<^verbatim>\<open>PUT /api/playlists/:id\<close>. The file is a module, hence strict: assigning the
  \<open>name\<close> of a method throws a \<^verbatim>\<open>TypeError\<close>, and a method is left out of the JSON
  response. Assigning the \<open>name\<close> of the prototype succeeds and changes
  \<^verbatim>\<open>Object.prototype\<close>, not the store; from then on a body without \<open>name\<close> reads that
  name, and the \<open>name\<close> arguments of the handlers are the values so read.
\<close>

definition put_playlist ::
  "'d lib \<Rightarrow> string \<Rightarrow> string option \<Rightarrow> 'd world \<Rightarrow> (exception + response) \<times> 'd world" where
  "put_playlist L pid name w =
     (let db = readDB L w;
          rename = (opt_or name [] \<noteq> [] \<and> trim (opt_or name []) \<noteq> [])
      in case playlist_member (playlists db) pid of
        Missing \<Rightarrow> (Inr \<lparr>status = 404, payload = Error ''not found''\<rparr>, w)
      | Own pl \<Rightarrow>
          let pl' = (if rename then pl\<lparr>pl_name := trim (opt_or name [])\<rparr> else pl);
              db' = db\<lparr>playlists := (playlists db)(pid \<mapsto> pl')\<rparr>
          in (Inr \<lparr>status = 200, payload = OkPlaylist pl'\<rparr>, writeDB L db' w)
      | Method \<Rightarrow>
          if rename then (Inl TypeError, w)
          else (Inr \<lparr>status = 200, payload = Ok\<rparr>, writeDB L db w)
      | Prototype \<Rightarrow> (Inr \<lparr>status = 200, payload = OkPrototype\<rparr>, writeDB L db w))"

text \<open>
  \<^verbatim>\<open>DELETE /api/playlists/:id\<close>. \<^verbatim>\<open>delete\<close> of an inherited member removes nothing.
\<close>

definition delete_playlist ::
  "'d lib \<Rightarrow> string \<Rightarrow> 'd world \<Rightarrow> (exception + response) \<times> 'd world" where
  "delete_playlist L pid w =
     (let db = readDB L w in
      case playlist_member (playlists db) pid of
        Missing \<Rightarrow> (Inr \<lparr>status = 404, payload = Error ''not found''\<rparr>, w)
      | Own pl \<Rightarrow>
          let db' = db\<lparr>playlists := (playlists db)(pid := None)\<rparr>
          in (Inr \<lparr>status = 200, payload = Ok\<rparr>, writeDB L db' w)
      | Method \<Rightarrow> (Inr \<lparr>status = 200, payload = Ok\<rparr>, writeDB L db w)
      | Prototype \<Rightarrow> (Inr \<lparr>status = 200, payload = Ok\<rparr>, writeDB L db w))"

text \<open>
  \<^verbatim>\<open>POST /api/playlists/:id/tracks\<close>; \<open>trackId\<close> may be missing from the body, and
  then no track has it. On an inherited member \<^verbatim>\<open>pl.trackIds.includes\<close> throws a
  \<^verbatim>\<open>TypeError\<close>, after the test for the track.
\<close>

definition post_playlist_track ::
  "'d lib \<Rightarrow> string \<Rightarrow> string option \<Rightarrow> 'd world \<Rightarrow> (exception + response) \<times> 'd world" where
  "post_playlist_track L pid trackId w =
     (let db = readDB L w;
          known = (case trackId of
                     None \<Rightarrow> False
                   | Some x \<Rightarrow> find (\<lambda>t. t_id t = x) (tracks db) \<noteq> None)
      in case playlist_member (playlists db) pid of
        Missing \<Rightarrow> (Inr \<lparr>status = 404, payload = Error ''playlist not found''\<rparr>, w)
      | Own pl \<Rightarrow>
          (case trackId of
             None \<Rightarrow> (Inr \<lparr>status = 400, payload = Error ''track not found''\<rparr>, w)
           | Some x \<Rightarrow>
               if find (\<lambda>t. t_id t = x) (tracks db) = None
               then (Inr \<lparr>status = 400, payload = Error ''track not found''\<rparr>, w)
               else
                 let pl' = (if x \<notin> set (trackIds pl)
                            then pl\<lparr>trackIds := trackIds pl @ [x]\<rparr> else pl);
                     db' = db\<lparr>playlists := (playlists db)(pid \<mapsto> pl')\<rparr>
                 in (Inr \<lparr>status = 200, payload = OkPlaylist pl'\<rparr>, writeDB L db' w))
      | Method \<Rightarrow>
          if known then (Inl TypeError, w)
          else (Inr \<lparr>status = 400, payload = Error ''track not found''\<rparr>, w)
      | Prototype \<Rightarrow>
          if known then (Inl TypeError, w)
          else (Inr \<lparr>status = 400, payload = Error ''track not found''\<rparr>, w))"

text \<open>
  \<^verbatim>\<open>DELETE /api/playlists/:id/tracks/:trackId\<close>. On an inherited member
  \<^verbatim>\<open>pl.trackIds.filter\<close> throws a \<^verbatim>\<open>TypeError\<close>.
\<close>

definition delete_playlist_track ::
  "'d lib \<Rightarrow> string \<Rightarrow> string \<Rightarrow> 'd world \<Rightarrow> (exception + response) \<times> 'd world" where
  "delete_playlist_track L pid trackId w =
     (let db = readDB L w in
      case playlist_member (playlists db) pid of
        Missing \<Rightarrow> (Inr \<lparr>status = 404, payload = Error ''playlist not found''\<rparr>, w)
      | Own pl \<Rightarrow>
          let pl' = unlink_track trackId pl;
              db' = db\<lparr>playlists := (playlists db)(pid \<mapsto> pl')\<rparr>
          in (Inr \<lparr>status = 200, payload = OkPlaylist pl'\<rparr>, writeDB L db' w)
      | Method \<Rightarrow> (Inl TypeError, w)
      | Prototype \<Rightarrow> (Inl TypeError, w))"

section \<open>The server\<close>

text \<open>
  A request, with what the environment supplies while it is served: the values of
  \<^verbatim>\<open>uuidv4()\<close> and whether \<^verbatim>\<open>fs.unlink\<close> succeeds. The result is the response,
  or the exception that left the handler, and the disk.
\<close>

datatype request =
    PostMusicUpload "(string \<times> upload_file) list"
  | PostMusicUrl string url_body
  | GetMusic
  | DeleteMusic bool string
  | GetStream string "string option"
  | GetPlaylists
  | PostPlaylist string "string option"
  | PutPlaylist string "string option"
  | DeletePlaylist string
  | PostPlaylistTrack string "string option"
  | DeletePlaylistTrack string string

fun handle :: "'d lib \<Rightarrow> request \<Rightarrow> 'd world \<Rightarrow> (exception + response) \<times> 'd world" where
  "handle L (PostMusicUpload files) w = apfst Inr (post_music_upload L files w)"
| "handle L (PostMusicUrl uuid body) w = apfst Inr (post_music_url L uuid body w)"
| "handle L GetMusic w = apfst Inr (get_music L w)"
| "handle L (DeleteMusic unlink_ok tid) w = apfst Inr (delete_music L unlink_ok tid w)"
| "handle L (GetStream tid range_header) w = (get_stream L tid range_header w, w)"
| "handle L GetPlaylists w = apfst Inr (get_playlists L w)"
| "handle L (PostPlaylist uuid name) w = apfst Inr (post_playlist L uuid name w)"
| "handle L (PutPlaylist pid name) w = put_playlist L pid name w"
| "handle L (DeletePlaylist pid) w = delete_playlist L pid w"
| "handle L (PostPlaylistTrack pid trackId) w = post_playlist_track L pid trackId w"
| "handle L (DeletePlaylistTrack pid trackId) w = delete_playlist_track L pid trackId w"

fun serve :: "'d lib \<Rightarrow> request list \<Rightarrow> 'd world \<Rightarrow> 'd world" where
  "serve L [] w = w"
| "serve L (r # rs) w = serve L rs (snd (handle L r w))"

text \<open>The values of \<^verbatim>\<open>uuidv4()\<close> that become track ids while a request is served.\<close>

fun drawn_ids :: "request \<Rightarrow> string list" where
  "drawn_ids (PostMusicUpload files) = map fst files"
| "drawn_ids (PostMusicUrl uuid body) = [uuid]"
| "drawn_ids r = []"

text \<open>What \<^verbatim>\<open>JSON.parse\<close> makes of a stringified store is that store.\<close>

definition codec_ok :: "'d lib \<Rightarrow> bool" where
  "codec_ok L \<longleftrightarrow> (\<forall>d. JSON_parse L (JSON_stringify L d) = Some d)"

text \<open>
  Referential integrity: every id in a playlist's sequence is the id of a track of the
  store.
\<close>

definition ref_integrity :: "db \<Rightarrow> bool" where
  "ref_integrity d \<longleftrightarrow>
     (\<forall>pid pl. playlists d pid = Some pl \<longrightarrow> set (trackIds pl) \<subseteq> t_id ` set (tracks d))"

text \<open>A playlist's sequence holds no id twice.\<close>

definition dup_free :: "db \<Rightarrow> bool" where
  "dup_free d \<longleftrightarrow> (\<forall>pid pl. playlists d pid = Some pl \<longrightarrow> distinct (trackIds pl))"

section \<open>A small installation\<close>

text \<open>
  One installation with three tracks, one playlist and one uploaded file of 250 bytes.
  Its data file holds \<open>None\<close> when its text is not JSON and \<open>Some d\<close> when it is the
  text of the store \<open>d\<close>.
\<close>

definition demo_lib :: "(db option) lib" where
  "demo_lib = \<lparr>JSON_parse = (\<lambda>raw. raw), JSON_stringify = Some,
               mime_getType = (\<lambda>p. None), mm_parseFile = (\<lambda>bytes. None)\<rparr>"

definition demo_file_track :: track where
  "demo_file_track =
     \<lparr>t_id = ''t1'', t_type = ''file'', t_path = Some ''1700000000000-song.mp3'', t_src = None,
      t_title = ''song'', t_artist = [], t_album = [], t_genre = [], t_duration = 0\<rparr>"

definition demo_url_track :: track where
  "demo_url_track =
     \<lparr>t_id = ''t2'', t_type = ''url'', t_path = None, t_src = Some ''http://radio/live.mp3'',
      t_title = ''live'', t_artist = [], t_album = [], t_genre = [], t_duration = 0\<rparr>"

definition demo_lost_track :: track where
  "demo_lost_track =
     \<lparr>t_id = ''t3'', t_type = ''file'', t_path = Some ''1700000000001-gone.mp3'', t_src = None,
      t_title = ''gone'', t_artist = [], t_album = [], t_genre = [], t_duration = 0\<rparr>"

definition demo_playlist :: playlist where
  "demo_playlist = \<lparr>pl_id = ''p1'', pl_name = ''Mix'', trackIds = [''t1'']\<rparr>"

definition demo_db :: db where
  "demo_db = \<lparr>tracks = [demo_file_track, demo_url_track, demo_lost_track],
              playlists = [''p1'' \<mapsto> demo_playlist]\<rparr>"

definition demo_bytes :: "byte list" where
  "demo_bytes = replicate 100 1 @ replicate 100 2 @ replicate 50 3"

definition demo_world :: "(db option) world" where
  "demo_world = \<lparr>data_file = Some (Some demo_db),
                 upload_dir = [''1700000000000-song.mp3'' \<mapsto> demo_bytes]\<rparr>"

section \<open>Properties of the hint parser\<close>

lemma artist_from_no_hyphen: "CHR ''-'' \<notin> set s \<Longrightarrow> artist_from s = None"
  by (induction s) auto

lemma match_hint_no_hyphen: "CHR ''-'' \<notin> set s \<Longrightarrow> match_hint s = None"
  by (induction s) (auto simp: artist_from_no_hyphen)

text \<open>
  C4. The hint parser turns \<^verbatim>\<open>Daft Punk - One More Time [Dance].mp3\<close> into the artist
  \<^verbatim>\<open>Daft Punk\<close>, the title \<^verbatim>\<open>One More Time\<close> and the genre \<^verbatim>\<open>Dance\<close>; and
  for every name whose stem, the name without its extension, contains no hyphen, it
  returns the whole stem as the title, with empty artist and genre.
\<close>

theorem parseFromFilename_hints:
  "parseFromFilename ''Daft Punk - One More Time [Dance].mp3''
     = \<lparr>title = ''One More Time'', artist = ''Daft Punk'', genre = ''Dance''\<rparr>
   \<and> (CHR ''-'' \<notin> set (strip_ext name) \<longrightarrow>
        parseFromFilename name = \<lparr>title = strip_ext name, artist = [], genre = []\<rparr>)"
proof
  show "parseFromFilename ''Daft Punk - One More Time [Dance].mp3''
     = \<lparr>title = ''One More Time'', artist = ''Daft Punk'', genre = ''Dance''\<rparr>"
    by code_simp
  show "CHR ''-'' \<notin> set (strip_ext name) \<longrightarrow>
        parseFromFilename name = \<lparr>title = strip_ext name, artist = [], genre = []\<rparr>"
    by (simp add: parseFromFilename_def match_hint_no_hyphen)
qed

theorem parseFromFilename_hints_witness:
  "CHR ''-'' \<notin> set (strip_ext ''intro.final.mp3'')
   \<and> parseFromFilename ''intro.final.mp3'' = \<lparr>title = ''intro.final'', artist = [], genre = []\<rparr>"
  using parseFromFilename_hints [of "''intro.final.mp3''"]
  by (simp add: ext_here_def)

section \<open>Properties of the store\<close>

lemma readDB_writeDB: "codec_ok L \<Longrightarrow> readDB L (writeDB L d w) = d"
  by (simp add: readDB_def writeDB_def codec_ok_def)

lemma readDB_upload_dir: "readDB L (w\<lparr>upload_dir := u\<rparr>) = readDB L w"
  by (simp add: readDB_def)

lemma codec_ok_demo: "codec_ok demo_lib"
  by (simp add: codec_ok_def demo_lib_def)

lemma readDB_demo: "readDB demo_lib demo_world = demo_db"
  by (simp add: readDB_def demo_lib_def demo_world_def)

lemma upload_dir_demo:
  "upload_dir demo_world = [''1700000000000-song.mp3'' \<mapsto> demo_bytes]"
  by (simp add: demo_world_def)

lemma tracks_demo:
  "tracks (readDB demo_lib demo_world) = [demo_file_track, demo_url_track, demo_lost_track]"
  by (simp add: readDB_demo demo_db_def)

text \<open>
  C6. Loading returns the empty store when the data file is absent and when its content
  does not parse, and the parsed store otherwise. \<open>readDB\<close> is a total function: both
  failures are values of its arguments and neither leaves it without a result.
\<close>

theorem readDB_default:
  "(data_file w = None \<longrightarrow> readDB L w = \<lparr>tracks = [], playlists = Map.empty\<rparr>)
   \<and> (\<forall>raw. data_file w = Some raw \<and> JSON_parse L raw = None \<longrightarrow>
          readDB L w = \<lparr>tracks = [], playlists = Map.empty\<rparr>)
   \<and> (\<forall>raw d. data_file w = Some raw \<and> JSON_parse L raw = Some d \<longrightarrow> readDB L w = d)"
  by (simp add: readDB_def empty_db_def)

theorem readDB_default_witness:
  "readDB demo_lib \<lparr>data_file = None, upload_dir = Map.empty\<rparr>
     = \<lparr>tracks = [], playlists = Map.empty\<rparr>
   \<and> readDB demo_lib \<lparr>data_file = Some None, upload_dir = Map.empty\<rparr>
     = \<lparr>tracks = [], playlists = Map.empty\<rparr>
   \<and> readDB demo_lib \<lparr>data_file = Some (Some demo_db), upload_dir = Map.empty\<rparr> = demo_db"
  using readDB_default [of "\<lparr>data_file = None, upload_dir = Map.empty\<rparr>" demo_lib]
        readDB_default [of "\<lparr>data_file = Some None, upload_dir = Map.empty\<rparr>" demo_lib]
        readDB_default [of "\<lparr>data_file = Some (Some demo_db), upload_dir = Map.empty\<rparr>" demo_lib]
  by (simp add: demo_lib_def)

section \<open>Properties of playlist creation\<close>




section \<open>Properties of the streaming endpoint\<close>

text \<open>
  C8. The streaming endpoint answers 404 when no track has the id, 400 when the track
  found is not of type \<^verbatim>\<open>file\<close>, and 404 when it is but its file is not on the disk:
  that failure is a response, not an exception. It sends audio only when the track
  exists, is a file and its file is on the disk. Then, without a \<^verbatim>\<open>Range\<close> header, it
  sends the whole file with status 200; with one, it sends audio with status 206 unless
  \<^verbatim>\<open>createReadStream\<close> rejects the range.
\<close>

theorem get_stream_preconditions:
  "(find (\<lambda>x. t_id x = tid) (tracks (readDB L w)) = None \<longrightarrow>
      get_stream L tid rh w = Inr \<lparr>status = 404, payload = NoBody\<rparr>)
   \<and> (\<forall>t. find (\<lambda>x. t_id x = tid) (tracks (readDB L w)) = Some t \<and> t_type t \<noteq> ''file'' \<longrightarrow>
        get_stream L tid rh w = Inr \<lparr>status = 400, payload = NoBody\<rparr>)
   \<and> (\<forall>t p. find (\<lambda>x. t_id x = tid) (tracks (readDB L w)) = Some t \<and> t_type t = ''file''
             \<and> t_path t = Some p \<and> upload_dir w p = None \<longrightarrow>
        get_stream L tid rh w = Inr \<lparr>status = 404, payload = NoBody\<rparr>)
   \<and> (\<forall>r h b. get_stream L tid rh w = Inr r \<and> payload r = Audio h b \<longrightarrow>
        (\<exists>t p bytes. find (\<lambda>x. t_id x = tid) (tracks (readDB L w)) = Some t \<and> t_type t = ''file''
             \<and> t_path t = Some p \<and> upload_dir w p = Some bytes))
   \<and> (\<forall>t p bytes. find (\<lambda>x. t_id x = tid) (tracks (readDB L w)) = Some t \<and> t_type t = ''file''
             \<and> t_path t = Some p \<and> upload_dir w p = Some bytes \<longrightarrow>
        (opt_or rh [] = [] \<longrightarrow>
           (\<exists>h. get_stream L tid rh w = Inr \<lparr>status = 200, payload = Audio h bytes\<rparr>))
        \<and> (opt_or rh [] \<noteq> [] \<longrightarrow>
             get_stream L tid rh w = Inl RangeError
             \<or> (\<exists>h b. get_stream L tid rh w = Inr \<lparr>status = 206, payload = Audio h b\<rparr>)))"
  by (auto simp: get_stream_def Let_def split: option.splits)

theorem get_stream_preconditions_witness:
  "get_stream demo_lib ''t9'' None demo_world = Inr \<lparr>status = 404, payload = NoBody\<rparr>
   \<and> get_stream demo_lib ''t2'' None demo_world = Inr \<lparr>status = 400, payload = NoBody\<rparr>
   \<and> get_stream demo_lib ''t3'' None demo_world = Inr \<lparr>status = 404, payload = NoBody\<rparr>
   \<and> (\<exists>h. get_stream demo_lib ''t1'' None demo_world
            = Inr \<lparr>status = 200, payload = Audio h demo_bytes\<rparr>)"
  using get_stream_preconditions [of "''t9''" demo_lib demo_world None]
        get_stream_preconditions [of "''t2''" demo_lib demo_world None]
        get_stream_preconditions [of "''t3''" demo_lib demo_world None]
        get_stream_preconditions [of "''t1''" demo_lib demo_world None]
  by (simp add: tracks_demo upload_dir_demo demo_file_track_def demo_url_track_def
                demo_lost_track_def opt_or_def)

section \<open>Validation failures\<close>

lemma playlist_member_Own: "ps k = Some pl \<Longrightarrow> playlist_member ps k = Own pl"
  by (simp add: playlist_member_def)

lemma playlist_member_Own_iff: "playlist_member ps k = Own pl \<longleftrightarrow> ps k = Some pl"
  by (auto simp: playlist_member_def split: option.splits)

lemma playlist_member_Missing:
  "playlist_member ps k = Missing \<longleftrightarrow>
     ps k = None \<and> k \<notin> set object_prototype_methods \<and> k \<noteq> ''__proto__''"
  by (auto simp: playlist_member_def split: option.splits)

text \<open>
  C10. Whatever the request, when the handler answers 400 or 404 the disk after it is
  the disk before it: the data file has not been written. This covers the deletion of a
  track, the registration of a URL, and the creation, renaming and deletion of a
  playlist and the addition and removal of its tracks.
\<close>

theorem validation_failure_no_write:
  "fst (handle L req w) = Inr r \<Longrightarrow> status r = 400 \<or> status r = 404 \<Longrightarrow>
   snd (handle L req w) = w"
  by (cases req)
     (auto simp: post_music_upload_def post_music_url_def get_music_def delete_music_def
                 get_playlists_def post_playlist_def put_playlist_def delete_playlist_def
                 post_playlist_track_def delete_playlist_track_def Let_def
           split: option.splits if_splits member.splits)

lemma playlists_demo: "playlists (readDB demo_lib demo_world) = [''p1'' \<mapsto> demo_playlist]"
  by (simp add: readDB_demo demo_db_def)

theorem validation_failure_no_write_witness:
  "fst (handle demo_lib (PostPlaylistTrack ''p1'' (Some ''t9'')) demo_world)
     = Inr \<lparr>status = 400, payload = Error ''track not found''\<rparr>
   \<and> snd (handle demo_lib (PostPlaylistTrack ''p1'' (Some ''t9'')) demo_world) = demo_world"
proof -
  have r: "fst (handle demo_lib (PostPlaylistTrack ''p1'' (Some ''t9'')) demo_world)
             = Inr \<lparr>status = 400, payload = Error ''track not found''\<rparr>"
    by (simp add: post_playlist_track_def playlists_demo tracks_demo playlist_member_def
                  demo_file_track_def demo_url_track_def demo_lost_track_def)
  from validation_failure_no_write [OF r] r show ?thesis by simp
qed

section \<open>Properties of track deletion\<close>

lemma findIndex_None_iff: "findIndex P xs = None \<longleftrightarrow> (\<forall>x \<in> set xs. \<not> P x)"
  by (induction xs) auto

lemma findIndex_Some:
  "findIndex P xs = Some i \<Longrightarrow> i < length xs \<and> P (xs ! i) \<and> (\<forall>j < i. \<not> P (xs ! j))"
proof (induction xs arbitrary: i)
  case Nil
  then show ?case by simp
next
  case (Cons x xs)
  show ?case
  proof (cases "P x")
    case True
    with Cons.prems show ?thesis by simp
  next
    case False
    with Cons.prems obtain k where k: "findIndex P xs = Some k" "i = Suc k"
      by auto
    from Cons.IH [OF k(1)] False k(2) show ?thesis
      by (auto simp: less_Suc_eq_0_disj)
  qed
qed

lemma splice1_remove1: "findIndex P xs = Some i \<Longrightarrow> splice1 i xs = remove1 (xs ! i) xs"
proof (induction xs arbitrary: i)
  case Nil
  then show ?case by simp
next
  case (Cons x xs)
  show ?case
  proof (cases "P x")
    case True
    with Cons.prems show ?thesis by (simp add: splice1_def)
  next
    case False
    with Cons.prems obtain k where k: "findIndex P xs = Some k" "i = Suc k"
      by auto
    from findIndex_Some [OF k(1)] False have "xs ! k \<noteq> x" by auto
    with Cons.IH [OF k(1)] k(2) show ?thesis
      by (simp add: splice1_def)
  qed
qed

lemma distinct_ids_remove1:
  "distinct (map f xs) \<Longrightarrow> t \<in> set xs \<Longrightarrow> f t \<notin> f ` set (remove1 t xs)"
proof -
  assume d: "distinct (map f xs)" and t: "t \<in> set xs"
  then have "distinct xs" "inj_on f (set xs)"
    by (simp_all add: distinct_map)
  then show ?thesis using t
    by (auto simp: inj_on_def)
qed

lemma delete_music_found:
  assumes "codec_ok L" and "findIndex (\<lambda>t. t_id t = tid) (tracks (readDB L w)) = Some idx"
  shows "fst (delete_music L u tid w) = \<lparr>status = 200, payload = Ok\<rparr>"
    and "readDB L (snd (delete_music L u tid w))
           = \<lparr>tracks = remove1 (tracks (readDB L w) ! idx) (tracks (readDB L w)),
              playlists = (\<lambda>k. map_option (unlink_track tid) (playlists (readDB L w) k))\<rparr>"
  using assms
  by (simp_all add: delete_music_def Let_def readDB_writeDB readDB_upload_dir splice1_remove1)

lemma delete_music_missing:
  assumes "findIndex (\<lambda>t. t_id t = tid) (tracks (readDB L w)) = None"
  shows "delete_music L u tid w = (\<lparr>status = 404, payload = Error ''not found''\<rparr>, w)"
  using assms by (simp add: delete_music_def)

text \<open>
  C3. Deleting an id that some track of the store has is answered with 200; the first
  track with that id is taken out of the track list, which is what \<^verbatim>\<open>GET /api/music\<close>
  then returns, so that with ids unique, as the data model has them, no listed track
  has the id any more; and every playlist keeps its sequence without the id, so the id
  occurs in no playlist. Deleting an id that no track has is answered with 404 and
  changes nothing.
\<close>

theorem delete_music_cascade:
  "codec_ok L \<Longrightarrow>
   (let d = readDB L w; r = delete_music L u tid w; d' = readDB L (snd r) in
      (tid \<in> t_id ` set (tracks d) \<longrightarrow>
         fst r = \<lparr>status = 200, payload = Ok\<rparr>
         \<and> (\<exists>t \<in> set (tracks d). t_id t = tid \<and> tracks d' = remove1 t (tracks d))
         \<and> (distinct (map t_id (tracks d)) \<longrightarrow> tid \<notin> t_id ` set (tracks d'))
         \<and> fst (get_music L (snd r)) = \<lparr>status = 200, payload = TrackList (tracks d')\<rparr>
         \<and> (\<forall>pid. playlists d' pid = map_option (unlink_track tid) (playlists d pid))
         \<and> (\<forall>pid pl. playlists d' pid = Some pl \<longrightarrow> tid \<notin> set (trackIds pl)))
      \<and> (tid \<notin> t_id ` set (tracks d) \<longrightarrow>
           fst r = \<lparr>status = 404, payload = Error ''not found''\<rparr> \<and> snd r = w))"
proof -
  assume ok: "codec_ok L"
  define d where "d = readDB L w"
  define r where "r = delete_music L u tid w"
  define d' where "d' = readDB L (snd r)"
  have present: "fst r = \<lparr>status = 200, payload = Ok\<rparr>
         \<and> (\<exists>t \<in> set (tracks d). t_id t = tid \<and> tracks d' = remove1 t (tracks d))
         \<and> (distinct (map t_id (tracks d)) \<longrightarrow> tid \<notin> t_id ` set (tracks d'))
         \<and> fst (get_music L (snd r)) = \<lparr>status = 200, payload = TrackList (tracks d')\<rparr>
         \<and> (\<forall>pid. playlists d' pid = map_option (unlink_track tid) (playlists d pid))
         \<and> (\<forall>pid pl. playlists d' pid = Some pl \<longrightarrow> tid \<notin> set (trackIds pl))"
    if "tid \<in> t_id ` set (tracks d)"
  proof -
    from that obtain idx where idx: "findIndex (\<lambda>t. t_id t = tid) (tracks d) = Some idx"
      using findIndex_None_iff [of "\<lambda>t. t_id t = tid" "tracks d"] by fastforce
    let ?t = "tracks d ! idx"
    from findIndex_Some [OF idx] have t: "?t \<in> set (tracks d)" "t_id ?t = tid"
      by simp_all
    have r1: "fst r = \<lparr>status = 200, payload = Ok\<rparr>"
      and d'_eq: "d' = \<lparr>tracks = remove1 ?t (tracks d),
                       playlists = (\<lambda>k. map_option (unlink_track tid) (playlists d k))\<rparr>"
      using delete_music_found [OF ok idx [unfolded d_def], of u]
      by (simp_all add: r_def d'_def d_def)
    have tr: "tracks d' = remove1 ?t (tracks d)"
      and pls: "\<And>pid. playlists d' pid = map_option (unlink_track tid) (playlists d pid)"
      by (simp_all add: d'_eq)
    have "tid \<notin> t_id ` set (tracks d')" if "distinct (map t_id (tracks d))"
      using distinct_ids_remove1 [OF that t(1)] t(2) tr by simp
    moreover have "tid \<notin> set (trackIds pl)" if "playlists d' pid = Some pl" for pid pl
      using that pls [of pid] by (auto simp: unlink_track_def)
    moreover have "fst (get_music L (snd r)) = \<lparr>status = 200, payload = TrackList (tracks d')\<rparr>"
      by (simp add: get_music_def d'_def)
    ultimately show ?thesis using r1 t tr pls by blast
  qed
  have absent: "fst r = \<lparr>status = 404, payload = Error ''not found''\<rparr> \<and> snd r = w"
    if "tid \<notin> t_id ` set (tracks d)"
  proof -
    from that have "findIndex (\<lambda>t. t_id t = tid) (tracks d) = None"
      by (auto simp: findIndex_None_iff)
    then show ?thesis
      using delete_music_missing [of tid L w u] by (simp add: r_def d_def)
  qed
  from present absent show ?thesis
    unfolding Let_def d_def [symmetric] r_def [symmetric] d'_def [symmetric] by blast
qed

theorem delete_music_cascade_witness:
  "''t1'' \<in> t_id ` set (tracks (readDB demo_lib demo_world))
   \<and> distinct (map t_id (tracks (readDB demo_lib demo_world)))
   \<and> fst (delete_music demo_lib True ''t1'' demo_world) = \<lparr>status = 200, payload = Ok\<rparr>
   \<and> ''t1'' \<notin> t_id ` set (tracks (readDB demo_lib (snd (delete_music demo_lib True ''t1'' demo_world))))
   \<and> playlists (readDB demo_lib (snd (delete_music demo_lib True ''t1'' demo_world))) ''p1''
        = Some \<lparr>pl_id = ''p1'', pl_name = ''Mix'', trackIds = []\<rparr>
   \<and> ''t9'' \<notin> t_id ` set (tracks (readDB demo_lib demo_world))
   \<and> delete_music demo_lib True ''t9'' demo_world
        = (\<lparr>status = 404, payload = Error ''not found''\<rparr>, demo_world)"
proof -
  have a: "''t1'' \<in> t_id ` set (tracks (readDB demo_lib demo_world))"
    and b: "distinct (map t_id (tracks (readDB demo_lib demo_world)))"
    and c: "''t9'' \<notin> t_id ` set (tracks (readDB demo_lib demo_world))"
    and p: "playlists (readDB demo_lib demo_world) ''p1'' = Some demo_playlist"
    by (simp_all add: readDB_demo demo_db_def demo_file_track_def demo_url_track_def
                      demo_lost_track_def)
  from delete_music_cascade [OF codec_ok_demo, of demo_world True "''t1''"] a b p
  have "fst (delete_music demo_lib True ''t1'' demo_world) = \<lparr>status = 200, payload = Ok\<rparr>
   \<and> ''t1'' \<notin> t_id ` set (tracks (readDB demo_lib (snd (delete_music demo_lib True ''t1'' demo_world))))
   \<and> playlists (readDB demo_lib (snd (delete_music demo_lib True ''t1'' demo_world))) ''p1''
        = Some \<lparr>pl_id = ''p1'', pl_name = ''Mix'', trackIds = []\<rparr>"
    by (simp add: Let_def unlink_track_def demo_playlist_def)
  moreover from delete_music_cascade [OF codec_ok_demo, of demo_world True "''t9''"] c
  have "delete_music demo_lib True ''t9'' demo_world
        = (\<lparr>status = 404, payload = Error ''not found''\<rparr>, demo_world)"
    by (simp add: Let_def prod_eq_iff)
  ultimately show ?thesis using a b c by blast
qed


text \<open>
  Track ids stay unique as long as the ids drawn are new: every handler keeps them so.
\<close>

lemma distinct_map_remove1: "distinct (map f xs) \<Longrightarrow> distinct (map f (remove1 x xs))"
proof (induction xs)
  case Nil
  then show ?case by simp
next
  case (Cons y ys)
  have "f y \<notin> f ` set (remove1 x ys)" if "f y \<notin> f ` set ys"
    using that set_remove1_subset [of x ys] by blast
  with Cons show ?case by auto
qed

lemma t_id_new_track: "t_id (new_track L uf) = fst uf"
  by (simp add: new_track_def Let_def)

lemma handle_unique_ids:
  assumes ok: "codec_ok L" and inv: "distinct (map t_id (tracks (readDB L w)))"
    and new: "distinct (drawn_ids req)"
             "set (drawn_ids req) \<inter> t_id ` set (tracks (readDB L w)) = {}"
  shows "distinct (map t_id (tracks (readDB L (snd (handle L req w)))))"
proof (cases req)
  case (PostMusicUpload files)
  have ids: "t_id \<circ> new_track L = fst"
    by (rule ext) (simp add: t_id_new_track)
  from inv new PostMusicUpload show ?thesis
    by (auto simp: post_music_upload_def Let_def readDB_writeDB [OF ok] readDB_upload_dir ids
                   t_id_new_track)
next
  case (PostMusicUrl uuid body)
  with inv new show ?thesis
    by (auto simp: post_music_url_def Let_def readDB_writeDB [OF ok])
next
  case GetMusic
  with inv show ?thesis by (simp add: get_music_def)
next
  case (DeleteMusic u tid)
  show ?thesis
  proof (cases "findIndex (\<lambda>t. t_id t = tid) (tracks (readDB L w))")
    case None
    with inv DeleteMusic show ?thesis by (simp add: delete_music_missing)
  next
    case (Some idx)
    with distinct_map_remove1 [OF inv] DeleteMusic show ?thesis
      by (simp add: delete_music_found(2) [OF ok Some])
  qed
next
  case (GetStream tid rh)
  with inv show ?thesis by simp
next
  case GetPlaylists
  with inv show ?thesis by (simp add: get_playlists_def)
next
  case (PostPlaylist uuid name)
  with inv show ?thesis
    by (simp add: post_playlist_def Let_def readDB_writeDB [OF ok])
next
  case (PutPlaylist pid name)
  with inv show ?thesis
    by (simp add: put_playlist_def Let_def readDB_writeDB [OF ok] split: member.splits)
next
  case (DeletePlaylist pid)
  with inv show ?thesis
    by (simp add: delete_playlist_def Let_def readDB_writeDB [OF ok] split: member.splits)
next
  case (PostPlaylistTrack pid trackId)
  with inv show ?thesis
    by (simp add: post_playlist_track_def Let_def readDB_writeDB [OF ok]
             split: member.splits option.splits)
next
  case (DeletePlaylistTrack pid trackId)
  with inv show ?thesis
    by (simp add: delete_playlist_track_def Let_def readDB_writeDB [OF ok] split: member.splits)
qed

section \<open>Properties of adding a track to a playlist\<close>

lemma count_list_distinct: "distinct xs \<Longrightarrow> x \<in> set xs \<Longrightarrow> count_list xs x = 1"
  by (induction xs) auto

lemma find_None_ids: "find (\<lambda>t. t_id t = x) ts = None \<longleftrightarrow> x \<notin> t_id ` set ts"
  by (auto simp: find_None_iff)

lemma post_playlist_track_added:
  assumes "playlists (readDB L w) pid = Some pl"
    and "x \<in> t_id ` set (tracks (readDB L w))"
  shows "post_playlist_track L pid (Some x) w =
           (let pl' = (if x \<in> set (trackIds pl) then pl else pl\<lparr>trackIds := trackIds pl @ [x]\<rparr>);
                d' = (readDB L w)\<lparr>playlists := (playlists (readDB L w))(pid \<mapsto> pl')\<rparr>
            in (Inr \<lparr>status = 200, payload = OkPlaylist pl'\<rparr>, writeDB L d' w))"
  using assms
  by (simp add: post_playlist_track_def Let_def find_None_ids playlist_member_Own)

text \<open>
  For a playlist of the store the addition is idempotent. It is answered with 400,
  without a write, when the id is missing or is the id of no track. For the id of a
  track, both additions are answered with 200; the first appends the id unless the
  sequence has it and changes nothing else, so it leaves the store as it was when the id
  is already there; and the second leaves the disk as the first left it. The sequence
  then holds the id exactly once, given that it held the id at most once before:
  sequences are duplicate-free in the data model, and \<open>serve_dup_free\<close> below shows that
  the handlers keep them so. An id that is neither a playlist of the store nor the name
  of a member of \<^verbatim>\<open>Object.prototype\<close> is answered with 404.
\<close>

lemma post_playlist_track_twice:
  assumes ok: "codec_ok L"
  shows
   "(let d = readDB L w;
        r1 = post_playlist_track L pid trackId w;
        r2 = post_playlist_track L pid trackId (snd r1)
    in (playlist_member (playlists d) pid = Missing \<longrightarrow>
          r1 = (Inr \<lparr>status = 404, payload = Error ''playlist not found''\<rparr>, w))
     \<and> (playlists d pid \<noteq> None
          \<and> (trackId = None \<or> (\<exists>x. trackId = Some x \<and> x \<notin> t_id ` set (tracks d))) \<longrightarrow>
          r1 = (Inr \<lparr>status = 400, payload = Error ''track not found''\<rparr>, w))
     \<and> (\<forall>pl x. playlists d pid = Some pl \<and> trackId = Some x \<and> x \<in> t_id ` set (tracks d) \<longrightarrow>
          (\<exists>p. fst r1 = Inr \<lparr>status = 200, payload = p\<rparr>)
          \<and> (\<exists>p. fst r2 = Inr \<lparr>status = 200, payload = p\<rparr>)
          \<and> readDB L (snd r1)
              = d\<lparr>playlists := (playlists d)
                    (pid \<mapsto> pl\<lparr>trackIds :=
                       (if x \<in> set (trackIds pl) then trackIds pl else trackIds pl @ [x])\<rparr>)\<rparr>
          \<and> snd r2 = snd r1
          \<and> (x \<in> set (trackIds pl) \<longrightarrow> readDB L (snd r1) = d)
          \<and> (x \<notin> set (trackIds pl) \<or> distinct (trackIds pl) \<longrightarrow>
               (\<exists>pl'. playlists (readDB L (snd r2)) pid = Some pl'
                      \<and> count_list (trackIds pl') x = 1))))"
proof -
  define d where "d = readDB L w"
  define r1 where "r1 = post_playlist_track L pid trackId w"
  define r2 where "r2 = post_playlist_track L pid trackId (snd r1)"
  have nf: "r1 = (Inr \<lparr>status = 404, payload = Error ''playlist not found''\<rparr>, w)"
    if "playlist_member (playlists d) pid = Missing"
    using that by (simp add: r1_def d_def post_playlist_track_def)
  have bad: "r1 = (Inr \<lparr>status = 400, payload = Error ''track not found''\<rparr>, w)"
    if "playlists d pid \<noteq> None"
      and "trackId = None \<or> (\<exists>x. trackId = Some x \<and> x \<notin> t_id ` set (tracks d))"
    using that
    by (auto simp: r1_def d_def post_playlist_track_def find_None_ids playlist_member_Own
             split: option.splits)
  have good: "(\<exists>p. fst r1 = Inr \<lparr>status = 200, payload = p\<rparr>)
          \<and> (\<exists>p. fst r2 = Inr \<lparr>status = 200, payload = p\<rparr>)
          \<and> readDB L (snd r1)
              = d\<lparr>playlists := (playlists d)
                    (pid \<mapsto> pl\<lparr>trackIds :=
                       (if x \<in> set (trackIds pl) then trackIds pl else trackIds pl @ [x])\<rparr>)\<rparr>
          \<and> snd r2 = snd r1
          \<and> (x \<in> set (trackIds pl) \<longrightarrow> readDB L (snd r1) = d)
          \<and> (x \<notin> set (trackIds pl) \<or> distinct (trackIds pl) \<longrightarrow>
               (\<exists>pl'. playlists (readDB L (snd r2)) pid = Some pl'
                      \<and> count_list (trackIds pl') x = 1))"
    if h: "playlists d pid = Some pl" "trackId = Some x" "x \<in> t_id ` set (tracks d)" for pl x
  proof -
    define ids where "ids = (if x \<in> set (trackIds pl) then trackIds pl else trackIds pl @ [x])"
    define pl1 where "pl1 = pl\<lparr>trackIds := ids\<rparr>"
    define d1 where "d1 = d\<lparr>playlists := (playlists d)(pid \<mapsto> pl1)\<rparr>"
    have pl1_alt: "(if x \<in> set (trackIds pl) then pl else pl\<lparr>trackIds := trackIds pl @ [x]\<rparr>) = pl1"
      by (simp add: pl1_def ids_def)
    have r1_eq: "r1 = (Inr \<lparr>status = 200, payload = OkPlaylist pl1\<rparr>, writeDB L d1 w)"
      using post_playlist_track_added [OF h(1) [unfolded d_def] h(3) [unfolded d_def]]
      by (simp add: r1_def h(2) Let_def pl1_alt d1_def d_def)
    have rd1: "readDB L (snd r1) = d1"
      by (simp add: r1_eq readDB_writeDB [OF ok])
    have x_in: "x \<in> set (trackIds pl1)"
      by (simp add: pl1_def ids_def)
    have p1: "playlists (readDB L (snd r1)) pid = Some pl1"
      and t1: "x \<in> t_id ` set (tracks (readDB L (snd r1)))"
      using h(3) by (simp_all add: rd1 d1_def)
    have d1_idem: "d1\<lparr>playlists := (playlists d1)(pid \<mapsto> pl1)\<rparr> = d1"
      by (simp add: d1_def)
    have r2_eq: "r2 = (Inr \<lparr>status = 200, payload = OkPlaylist pl1\<rparr>, writeDB L d1 (snd r1))"
      using post_playlist_track_added [OF p1 t1] x_in
      by (simp add: r2_def h(2) Let_def rd1 d1_idem)
    have same: "snd r2 = snd r1"
      by (simp add: r2_eq) (simp add: r1_eq writeDB_def)
    have noop: "readDB L (snd r1) = d" if "x \<in> set (trackIds pl)"
    proof -
      from that have "pl1 = pl" by (simp add: pl1_def ids_def)
      then have "d1 = d" using h(1) by (simp add: d1_def fun_upd_idem)
      then show ?thesis by (simp add: rd1)
    qed
    have once: "count_list (trackIds pl1) x = 1"
      if "x \<notin> set (trackIds pl) \<or> distinct (trackIds pl)"
    proof (cases "x \<in> set (trackIds pl)")
      case True
      with that have "distinct (trackIds pl)" by blast
      with True show ?thesis
        by (simp add: pl1_def ids_def count_list_distinct)
    next
      case False
      then show ?thesis
        by (simp add: pl1_def ids_def)
    qed
    have "playlists (readDB L (snd r2)) pid = Some pl1"
      by (simp add: same p1)
    with once have ex: "x \<notin> set (trackIds pl) \<or> distinct (trackIds pl) \<longrightarrow>
               (\<exists>pl'. playlists (readDB L (snd r2)) pid = Some pl'
                      \<and> count_list (trackIds pl') x = 1)"
      by blast
    have "readDB L (snd r1) = d\<lparr>playlists := (playlists d)
                    (pid \<mapsto> pl\<lparr>trackIds :=
                       (if x \<in> set (trackIds pl) then trackIds pl else trackIds pl @ [x])\<rparr>)\<rparr>"
      by (simp add: rd1 d1_def pl1_def ids_def)
    with r1_eq r2_eq same noop ex show ?thesis by simp
  qed
  from nf bad good show ?thesis
    unfolding Let_def d_def [symmetric] r1_def [symmetric] r2_def [symmetric] by blast
qed

text \<open>
  C5. The handler answers an absent playlist with 404 only when the id is not the name
  of a member of \<^verbatim>\<open>Object.prototype\<close>. The store of the installation has no playlist
  \<^verbatim>\<open>constructor\<close>, and adding a track to it is answered with 400 for the id of no
  track, and throws a \<^verbatim>\<open>TypeError\<close> for the id of a track; neither is the 404 of an
  absent playlist.
\<close>

theorem post_playlist_track_inherited_id:
  "playlists (readDB demo_lib demo_world) ''constructor'' = None
   \<and> post_playlist_track demo_lib ''constructor'' (Some ''t9'') demo_world
       = (Inr \<lparr>status = 400, payload = Error ''track not found''\<rparr>, demo_world)
   \<and> post_playlist_track demo_lib ''constructor'' (Some ''t1'') demo_world
       = (Inl TypeError, demo_world)"
  by (simp add: post_playlist_track_def playlists_demo tracks_demo playlist_member_def
                object_prototype_methods_def demo_file_track_def demo_url_track_def
                demo_lost_track_def)

section \<open>The store after a playlist request\<close>

text \<open>
  What the four handlers that read \<^verbatim>\<open>db.playlists[id]\<close> leave in the store: a change
  when the id is a playlist of the store, and the store as it was otherwise.
\<close>

lemma put_playlist_store:
  assumes "codec_ok L"
  shows "readDB L (snd (put_playlist L pid name w)) =
           (case playlists (readDB L w) pid of
              None \<Rightarrow> readDB L w
            | Some pl \<Rightarrow>
                (readDB L w)\<lparr>playlists := (playlists (readDB L w))
                  (pid \<mapsto> (if opt_or name [] \<noteq> [] \<and> trim (opt_or name []) \<noteq> []
                            then pl\<lparr>pl_name := trim (opt_or name [])\<rparr> else pl))\<rparr>)"
  by (simp add: put_playlist_def Let_def playlist_member_def readDB_writeDB [OF assms]
           split: option.splits)

lemma delete_playlist_store:
  assumes "codec_ok L"
  shows "readDB L (snd (delete_playlist L pid w)) =
           (case playlists (readDB L w) pid of
              None \<Rightarrow> readDB L w
            | Some pl \<Rightarrow> (readDB L w)\<lparr>playlists := (playlists (readDB L w))(pid := None)\<rparr>)"
  by (simp add: delete_playlist_def Let_def playlist_member_def readDB_writeDB [OF assms]
           split: option.splits)

lemma post_playlist_track_store:
  assumes "codec_ok L"
  shows "readDB L (snd (post_playlist_track L pid trackId w)) =
           (case (playlists (readDB L w) pid, trackId) of
              (Some pl, Some x) \<Rightarrow>
                if x \<in> t_id ` set (tracks (readDB L w))
                then (readDB L w)\<lparr>playlists := (playlists (readDB L w))
                       (pid \<mapsto> (if x \<in> set (trackIds pl) then pl
                                 else pl\<lparr>trackIds := trackIds pl @ [x]\<rparr>))\<rparr>
                else readDB L w
            | _ \<Rightarrow> readDB L w)"
  by (simp add: post_playlist_track_def Let_def playlist_member_def readDB_writeDB [OF assms]
                find_None_ids
           split: option.splits)

lemma delete_playlist_track_store:
  assumes "codec_ok L"
  shows "readDB L (snd (delete_playlist_track L pid trackId w)) =
           (case playlists (readDB L w) pid of
              None \<Rightarrow> readDB L w
            | Some pl \<Rightarrow>
                (readDB L w)\<lparr>playlists := (playlists (readDB L w))
                  (pid \<mapsto> unlink_track trackId pl)\<rparr>)"
  by (simp add: delete_playlist_track_def Let_def playlist_member_def readDB_writeDB [OF assms]
           split: option.splits)

text \<open>Every handler keeps the sequences duplicate-free, and a new installation has none.\<close>

lemma dup_free_put:
  "dup_free d \<Longrightarrow> distinct (trackIds pl) \<Longrightarrow>
   dup_free (d\<lparr>playlists := (playlists d)(pid \<mapsto> pl)\<rparr>)"
  by (auto simp: dup_free_def)

lemma dup_free_lookup: "dup_free d \<Longrightarrow> playlists d pid = Some pl \<Longrightarrow> distinct (trackIds pl)"
  by (auto simp: dup_free_def)

lemma handle_dup_free:
  assumes ok: "codec_ok L" and inv: "dup_free (readDB L w)"
  shows "dup_free (readDB L (snd (handle L req w)))"
proof (cases req)
  case (PostMusicUpload files)
  with inv show ?thesis
    by (simp add: post_music_upload_def Let_def readDB_writeDB [OF ok] readDB_upload_dir dup_free_def)
next
  case (PostMusicUrl uuid body)
  with inv show ?thesis
    by (simp add: post_music_url_def Let_def readDB_writeDB [OF ok] dup_free_def)
next
  case GetMusic
  with inv show ?thesis by (simp add: get_music_def)
next
  case (DeleteMusic u tid)
  show ?thesis
  proof (cases "findIndex (\<lambda>t. t_id t = tid) (tracks (readDB L w))")
    case None
    with inv DeleteMusic show ?thesis by (simp add: delete_music_missing)
  next
    case (Some idx)
    with inv DeleteMusic show ?thesis
      by (auto simp: delete_music_found(2) [OF ok Some] dup_free_def unlink_track_def)
  qed
next
  case (GetStream tid rh)
  with inv show ?thesis by simp
next
  case GetPlaylists
  with inv show ?thesis by (simp add: get_playlists_def)
next
  case (PostPlaylist uuid name)
  with inv dup_free_put [OF inv, of "\<lparr>pl_id = uuid, pl_name = trim (opt_or name []), trackIds = []\<rparr>" uuid]
  show ?thesis
    by (simp add: post_playlist_def Let_def readDB_writeDB [OF ok])
next
  case (PutPlaylist pid name)
  show ?thesis
  proof (cases "playlists (readDB L w) pid")
    case None
    with inv PutPlaylist show ?thesis by (simp add: put_playlist_store [OF ok])
  next
    case (Some pl)
    let ?pl = "if opt_or name [] \<noteq> [] \<and> trim (opt_or name []) \<noteq> []
               then pl\<lparr>pl_name := trim (opt_or name [])\<rparr> else pl"
    from dup_free_lookup [OF inv Some] have "distinct (trackIds ?pl)" by simp
    from dup_free_put [OF inv this] Some PutPlaylist show ?thesis
      by (simp add: put_playlist_store [OF ok])
  qed
next
  case (DeletePlaylist pid)
  with inv show ?thesis
    by (auto simp: delete_playlist_store [OF ok] dup_free_def split: option.splits if_splits)
next
  case (PostPlaylistTrack pid trackId)
  show ?thesis
  proof (cases "playlists (readDB L w) pid")
    case None
    with inv PostPlaylistTrack show ?thesis by (simp add: post_playlist_track_store [OF ok])
  next
    case (Some pl)
    show ?thesis
    proof (cases trackId)
      case None
      with inv Some PostPlaylistTrack show ?thesis
        by (simp add: post_playlist_track_store [OF ok])
    next
      case x: (Some x)
      let ?pl = "if x \<in> set (trackIds pl) then pl else pl\<lparr>trackIds := trackIds pl @ [x]\<rparr>"
      from dup_free_lookup [OF inv Some] have "distinct (trackIds ?pl)" by simp
      from dup_free_put [OF inv this] inv PostPlaylistTrack Some x show ?thesis
        by (simp add: post_playlist_track_store [OF ok])
    qed
  qed
next
  case (DeletePlaylistTrack pid trackId)
  show ?thesis
  proof (cases "playlists (readDB L w) pid")
    case None
    with inv DeletePlaylistTrack show ?thesis by (simp add: delete_playlist_track_store [OF ok])
  next
    case (Some pl)
    from dup_free_lookup [OF inv Some] have "distinct (trackIds (unlink_track trackId pl))"
      by (simp add: unlink_track_def)
    from dup_free_put [OF inv this] Some DeletePlaylistTrack show ?thesis
      by (simp add: delete_playlist_track_store [OF ok])
  qed
qed

lemma serve_dup_free:
  "codec_ok L \<Longrightarrow> dup_free (readDB L w) \<Longrightarrow> dup_free (readDB L (serve L reqs w))"
proof (induction reqs arbitrary: w)
  case Nil
  then show ?case by simp
next
  case (Cons r rs)
  from Cons.prems have "dup_free (readDB L (snd (handle L r w)))"
    by (rule handle_dup_free)
  with Cons.IH [OF Cons.prems(1)] show ?case by simp
qed

lemma dup_free_fresh: "data_file w = None \<Longrightarrow> dup_free (readDB L w)"
  by (simp add: readDB_def empty_db_def dup_free_def)

section \<open>Referential integrity\<close>

lemma ref_integrity_more_tracks:
  "ref_integrity d \<Longrightarrow> ref_integrity (d\<lparr>tracks := tracks d @ ts\<rparr>)"
  by (fastforce simp: ref_integrity_def)

lemma ref_integrity_put:
  "ref_integrity d \<Longrightarrow> set (trackIds pl) \<subseteq> t_id ` set (tracks d) \<Longrightarrow>
   ref_integrity (d\<lparr>playlists := (playlists d)(pid \<mapsto> pl)\<rparr>)"
  by (auto simp: ref_integrity_def)

lemma ref_integrity_drop:
  "ref_integrity d \<Longrightarrow> ref_integrity (d\<lparr>playlists := (playlists d)(pid := None)\<rparr>)"
  by (auto simp: ref_integrity_def split: if_splits)

lemma ref_integrity_lookup:
  "ref_integrity d \<Longrightarrow> playlists d pid = Some pl \<Longrightarrow> set (trackIds pl) \<subseteq> t_id ` set (tracks d)"
  by (simp add: ref_integrity_def)

lemma ref_integrity_cascade:
  assumes "ref_integrity d" and "t \<in> set (tracks d)"
  shows "ref_integrity \<lparr>tracks = remove1 t (tracks d),
                        playlists = (\<lambda>k. map_option (unlink_track (t_id t)) (playlists d k))\<rparr>"
  unfolding ref_integrity_def
proof (intro allI impI subsetI)
  fix pid pl x
  assume pl: "playlists \<lparr>tracks = remove1 t (tracks d),
                 playlists = (\<lambda>k. map_option (unlink_track (t_id t)) (playlists d k))\<rparr> pid = Some pl"
    and x: "x \<in> set (trackIds pl)"
  from pl obtain pl0 where pl0: "playlists d pid = Some pl0" "pl = unlink_track (t_id t) pl0"
    by auto
  from x pl0(2) have "x \<noteq> t_id t" "x \<in> set (trackIds pl0)"
    by (simp_all add: unlink_track_def)
  with ref_integrity_lookup [OF assms(1) pl0(1)] obtain t' where t': "t' \<in> set (tracks d)" "t_id t' = x"
    by auto
  with \<open>x \<noteq> t_id t\<close> have "t' \<noteq> t" by auto
  with t'(1) have "t' \<in> set (remove1 t (tracks d))" by simp
  with t'(2) show "x \<in> t_id ` set (tracks \<lparr>tracks = remove1 t (tracks d),
                 playlists = (\<lambda>k. map_option (unlink_track (t_id t)) (playlists d k))\<rparr>)"
    by auto
qed

lemma delete_music_ref_integrity:
  assumes ok: "codec_ok L" and inv: "ref_integrity (readDB L w)"
  shows "ref_integrity (readDB L (snd (delete_music L u tid w)))"
proof (cases "findIndex (\<lambda>t. t_id t = tid) (tracks (readDB L w))")
  case None
  with inv show ?thesis by (simp add: delete_music_missing)
next
  case (Some idx)
  from findIndex_Some [OF Some]
  have t: "tracks (readDB L w) ! idx \<in> set (tracks (readDB L w))"
    and i: "t_id (tracks (readDB L w) ! idx) = tid"
    by simp_all
  from ref_integrity_cascade [OF inv t] show ?thesis
    by (simp add: delete_music_found(2) [OF ok Some] i)
qed

lemma handle_ref_integrity:
  assumes ok: "codec_ok L" and inv: "ref_integrity (readDB L w)"
  shows "ref_integrity (readDB L (snd (handle L req w)))"
proof (cases req)
  case (PostMusicUpload files)
  with ref_integrity_more_tracks [OF inv] show ?thesis
    by (simp add: post_music_upload_def Let_def readDB_writeDB [OF ok] readDB_upload_dir)
next
  case (PostMusicUrl uuid body)
  with inv ref_integrity_more_tracks [OF inv] show ?thesis
    by (simp add: post_music_url_def Let_def readDB_writeDB [OF ok])
next
  case GetMusic
  with inv show ?thesis by (simp add: get_music_def)
next
  case (DeleteMusic u tid)
  with delete_music_ref_integrity [OF ok inv] show ?thesis by simp
next
  case (GetStream tid rh)
  with inv show ?thesis by simp
next
  case GetPlaylists
  with inv show ?thesis by (simp add: get_playlists_def)
next
  case (PostPlaylist uuid name)
  with inv ref_integrity_put [OF inv, of "\<lparr>pl_id = uuid, pl_name = trim (opt_or name []), trackIds = []\<rparr>" uuid]
  show ?thesis
    by (simp add: post_playlist_def Let_def readDB_writeDB [OF ok])
next
  case (PutPlaylist pid name)
  show ?thesis
  proof (cases "playlists (readDB L w) pid")
    case None
    with inv PutPlaylist show ?thesis by (simp add: put_playlist_store [OF ok])
  next
    case (Some pl)
    let ?pl = "if opt_or name [] \<noteq> [] \<and> trim (opt_or name []) \<noteq> []
               then pl\<lparr>pl_name := trim (opt_or name [])\<rparr> else pl"
    from ref_integrity_lookup [OF inv Some]
    have "set (trackIds ?pl) \<subseteq> t_id ` set (tracks (readDB L w))" by simp
    from ref_integrity_put [OF inv this] Some PutPlaylist show ?thesis
      by (simp add: put_playlist_store [OF ok])
  qed
next
  case (DeletePlaylist pid)
  with inv ref_integrity_drop [OF inv] show ?thesis
    by (simp add: delete_playlist_store [OF ok] split: option.splits)
next
  case (PostPlaylistTrack pid trackId)
  show ?thesis
  proof (cases "playlists (readDB L w) pid")
    case None
    with inv PostPlaylistTrack show ?thesis by (simp add: post_playlist_track_store [OF ok])
  next
    case (Some pl)
    show ?thesis
    proof (cases "\<exists>x. trackId = Some x \<and> x \<in> t_id ` set (tracks (readDB L w))")
      case True
      then obtain x where x: "trackId = Some x" "x \<in> t_id ` set (tracks (readDB L w))"
        by blast
      let ?pl = "if x \<in> set (trackIds pl) then pl else pl\<lparr>trackIds := trackIds pl @ [x]\<rparr>"
      from ref_integrity_lookup [OF inv Some] x(2)
      have "set (trackIds ?pl) \<subseteq> t_id ` set (tracks (readDB L w))" by simp
      from ref_integrity_put [OF inv this] PostPlaylistTrack Some x show ?thesis
        by (simp add: post_playlist_track_store [OF ok])
    next
      case False
      with inv Some PostPlaylistTrack show ?thesis
        by (cases trackId) (auto simp: post_playlist_track_store [OF ok])
    qed
  qed
next
  case (DeletePlaylistTrack pid trackId)
  show ?thesis
  proof (cases "playlists (readDB L w) pid")
    case None
    with inv DeletePlaylistTrack show ?thesis by (simp add: delete_playlist_track_store [OF ok])
  next
    case (Some pl)
    from ref_integrity_lookup [OF inv Some]
    have "set (trackIds (unlink_track trackId pl)) \<subseteq> t_id ` set (tracks (readDB L w))"
      by (auto simp: unlink_track_def)
    from ref_integrity_put [OF inv this] Some DeletePlaylistTrack show ?thesis
      by (simp add: delete_playlist_track_store [OF ok])
  qed
qed

text \<open>
  C2. Referential integrity is an invariant: whatever requests are served, one after
  the other, from a disk whose store satisfies it, the store read back at the end
  satisfies it too. Two facts carry it: an addition to a playlist that is answered with
  200 was given the id of a track of the store, and after a deletion that is answered
  with 200 no playlist holds the deleted id.
\<close>

theorem serve_ref_integrity:
  "codec_ok L \<Longrightarrow>
   (ref_integrity (readDB L w) \<longrightarrow> ref_integrity (readDB L (serve L reqs w)))
   \<and> ((\<exists>r. fst (post_playlist_track L pid trackId w) = Inr r \<and> status r = 200) \<longrightarrow>
        (\<exists>x. trackId = Some x \<and> x \<in> t_id ` set (tracks (readDB L w))))
   \<and> (status (fst (delete_music L u tid w)) = 200 \<longrightarrow>
        (\<forall>k pl. playlists (readDB L (snd (delete_music L u tid w))) k = Some pl \<longrightarrow>
                 tid \<notin> set (trackIds pl)))"
proof (intro conjI impI)
  assume ok: "codec_ok L"
  show "ref_integrity (readDB L (serve L reqs w))" if "ref_integrity (readDB L w)"
    using that
  proof (induction reqs arbitrary: w)
    case Nil
    then show ?case by simp
  next
    case (Cons r rs)
    from ok Cons.prems have "ref_integrity (readDB L (snd (handle L r w)))"
      by (rule handle_ref_integrity)
    with Cons.IH show ?case by simp
  qed
next
  assume "\<exists>r. fst (post_playlist_track L pid trackId w) = Inr r \<and> status r = 200"
  then show "\<exists>x. trackId = Some x \<and> x \<in> t_id ` set (tracks (readDB L w))"
    by (auto simp: post_playlist_track_def Let_def find_None_ids
             split: option.splits if_splits member.splits)
next
  assume ok: "codec_ok L" and s: "status (fst (delete_music L u tid w)) = 200"
  show "\<forall>k pl. playlists (readDB L (snd (delete_music L u tid w))) k = Some pl \<longrightarrow>
                 tid \<notin> set (trackIds pl)"
  proof (cases "findIndex (\<lambda>t. t_id t = tid) (tracks (readDB L w))")
    case None
    with s show ?thesis by (simp add: delete_music_missing)
  next
    case (Some idx)
    show ?thesis
      by (auto simp: delete_music_found(2) [OF ok Some] unlink_track_def)
  qed
qed

lemma ref_integrity_demo: "ref_integrity (readDB demo_lib demo_world)"
  by (simp add: readDB_demo ref_integrity_def demo_db_def demo_playlist_def demo_file_track_def)

lemma serve_demo:
  "readDB demo_lib
     (serve demo_lib [PostPlaylistTrack ''p1'' (Some ''t2''), DeleteMusic True ''t1''] demo_world)
   = \<lparr>tracks = [demo_url_track, demo_lost_track],
      playlists = [''p1'' \<mapsto> \<lparr>pl_id = ''p1'', pl_name = ''Mix'', trackIds = [''t2'']\<rparr>]\<rparr>"
proof -
  have p: "playlists (readDB demo_lib demo_world) ''p1'' = Some demo_playlist"
    and t: "''t2'' \<in> t_id ` set (tracks (readDB demo_lib demo_world))"
    by (simp_all add: readDB_demo demo_db_def demo_url_track_def)
  have a: "readDB demo_lib (snd (post_playlist_track demo_lib ''p1'' (Some ''t2'') demo_world))
             = demo_db\<lparr>playlists := [''p1'' \<mapsto> \<lparr>pl_id = ''p1'', pl_name = ''Mix'',
                                                  trackIds = [''t1'', ''t2'']\<rparr>]\<rparr>"
    by (simp add: post_playlist_track_added [OF p t] Let_def
                  readDB_writeDB [OF codec_ok_demo] readDB_demo demo_playlist_def demo_db_def)
  have i: "findIndex (\<lambda>t. t_id t = ''t1'')
             (tracks (readDB demo_lib (snd (post_playlist_track demo_lib ''p1'' (Some ''t2'') demo_world))))
           = Some 0"
    by (simp add: a) (simp add: demo_db_def demo_file_track_def)
  show ?thesis
    by (simp add: delete_music_found(2) [OF codec_ok_demo i])
       (auto simp: a demo_db_def unlink_track_def)
qed

theorem serve_ref_integrity_witness:
  "ref_integrity (readDB demo_lib demo_world)
   \<and> ref_integrity
        \<lparr>tracks = [demo_url_track, demo_lost_track],
         playlists = [''p1'' \<mapsto> \<lparr>pl_id = ''p1'', pl_name = ''Mix'', trackIds = [''t2'']\<rparr>]\<rparr>"
  using serve_ref_integrity [OF codec_ok_demo, of demo_world
          "[PostPlaylistTrack ''p1'' (Some ''t2''), DeleteMusic True ''t1'']"]
        ref_integrity_demo
  by (simp only: serve_demo simp_thms)

section \<open>Range requests\<close>

lemma split_on_append:
  "d \<notin> set a \<Longrightarrow> split_on d (a @ d # b) = a # split_on d b"
  by (induction a) (auto split: list.splits)

lemma split_on_none: "d \<notin> set a \<Longrightarrow> split_on d a = [a]"
  by (induction a) (auto split: list.splits)

lemma split_on_two:
  "d \<notin> set a \<Longrightarrow> d \<notin> set b \<Longrightarrow> split_on d (a @ d # b) = [a, b]"
  by (simp add: split_on_append split_on_none)

lemma digit_not_hyphen: "is_digit c \<Longrightarrow> c \<noteq> CHR ''-''"
  by (auto simp: is_digit_def)

lemma digit_not_sign_space: "is_digit c \<Longrightarrow> c \<noteq> CHR ''+'' \<and> \<not> is_space c"
  by (auto simp: is_digit_def is_space_def)

lemma parseInt_digits:
  assumes "ds \<noteq> []" and "\<forall>c \<in> set ds. is_digit c"
  shows "parseInt ds = js_int (int (decimal ds))"
proof -
  from assms obtain c cs where ds: "ds = c # cs" by (cases ds) auto
  with assms(2) have c: "is_digit c" by simp
  have tw: "takeWhile is_digit (c # cs) = c # cs"
    using assms(2) unfolding ds by (rule takeWhile_eq_all_conv [THEN iffD2])
  have dw: "dropWhile is_space (c # cs) = c # cs"
    using c by (simp add: digit_not_sign_space)
  from c have cm: "c \<noteq> CHR ''-''" "c \<noteq> CHR ''+''"
    by (simp_all add: digit_not_hyphen digit_not_sign_space)
  show ?thesis
    unfolding parseInt_def Let_def ds dw
    by (simp add: cm tw del: takeWhile.simps)
qed


lemma js_int_safe: "n < 2 ^ 53 \<Longrightarrow> js_int (int n) = Num (int n)"
  by (simp add: js_int_def max_safe_integer_def)


lemma checked_span_nat:
  "checked_span (Num (int s)) (Num (int e)) =
     (if s < 2 ^ 53 \<and> e < 2 ^ 53 \<and> s \<le> e then Some (Span s (Some e)) else None)"
  by (auto simp: checked_span_def max_safe_integer_def)


lemma get_stream_range:
  assumes "find (\<lambda>x. t_id x = tid) (tracks (readDB L w)) = Some t"
    and "t_type t = ''file''" and "t_path t = Some p" and "upload_dir w p = Some bytes"
    and "CHR ''-'' \<notin> set a" and "CHR ''-'' \<notin> set b"
  shows "get_stream L tid (Some (''bytes='' @ a @ ''-'' @ b)) w =
          (case checked_span (parseInt a)
                  (if b \<noteq> [] then parseInt b else Num (int (length bytes) - 1)) of
             None \<Rightarrow> Inl RangeError
           | Some sp \<Rightarrow>
               Inr \<lparr>status = 206,
                    payload = Audio (range_headers sp (length bytes)
                                       (opt_or (mime_getType L p) ''audio/mpeg''))
                                    (createReadStream bytes sp)\<rparr>)"
proof -
  have parts: "split_on CHR ''-'' (remove_first ''bytes='' (opt_or (Some (''bytes='' @ a @ ''-'' @ b)) []))
                 = [a, b]"
    using split_on_two [OF assms(5,6)] by (simp add: opt_or_def or_str_def)
  have ne: "opt_or (Some (''bytes='' @ a @ ''-'' @ b)) [] \<noteq> []"
    by (simp add: opt_or_def or_str_def)
  have n0: "opt_or (nth_opt [a, b] 0) [] = a" and n1: "opt_or (nth_opt [a, b] 1) [] = b"
    by (simp_all add: nth_opt_def opt_or_def or_str_def)
  show ?thesis
    unfolding get_stream_def Let_def
    by (simp only: assms(1-4) option.case if_False if_True ne parts n0 n1 simp_thms)
qed



lemma decimal_100: "decimal ''100'' = 100"
  by code_simp

lemma decimal_199: "decimal ''199'' = 199"
  by code_simp

lemma parseInt_100: "parseInt ''100'' = Num 100"
  by (simp add: parseInt_digits is_digit_def js_int_def max_safe_integer_def decimal_100)

lemma parseInt_199: "parseInt ''199'' = Num 199"
  by (simp add: parseInt_digits is_digit_def js_int_def max_safe_integer_def decimal_199)

lemma show_nat_100: "show_nat 100 = ''100''"
  by code_simp

lemma show_nat_199: "show_nat 199 = ''199''"
  by code_simp

text \<open>
  C1. For a track of type \<^verbatim>\<open>file\<close> whose file is on the disk with at least 200
  bytes, the header \<^verbatim>\<open>Range: bytes=100-199\<close> is answered with 206, the content
  range \<^verbatim>\<open>bytes 100-199/T\<close> for the size \<open>T\<close> of the file, the content length 100,
  and as body the 100 bytes of the file at the positions 100 to 199. A header
  \<^verbatim>\<open>bytes=S-\<close>, with \<open>S\<close> in decimal digits and below \<open>T\<close>, gets the range from \<open>S\<close>
  to \<open>T - 1\<close> and the bytes of the file from position \<open>S\<close> on.
\<close>

theorem get_stream_partial_content:
  assumes "find (\<lambda>x. t_id x = tid) (tracks (readDB L w)) = Some t"
    and "t_type t = ''file''" and "t_path t = Some p" and "upload_dir w p = Some bytes"
    and "200 \<le> length bytes"
  shows "get_stream L tid (Some ''bytes=100-199'') w
           = Inr \<lparr>status = 206,
                  payload = Audio
                    \<lparr>Content_Range = Some (''bytes 100-199/'' @ show_nat (length bytes)),
                     Accept_Ranges = Some ''bytes'',
                     Content_Length = Num 100,
                     Content_Type = opt_or (mime_getType L p) ''audio/mpeg''\<rparr>
                    (take 100 (drop 100 bytes))\<rparr>
         \<and> length (take 100 (drop 100 bytes)) = 100
         \<and> (\<forall>i < 100. take 100 (drop 100 bytes) ! i = bytes ! (100 + i))
         \<and> (\<forall>ds. ds \<noteq> [] \<and> (\<forall>c \<in> set ds. is_digit c) \<and> decimal ds < length bytes
                  \<and> length bytes < 2 ^ 53 \<longrightarrow>
               get_stream L tid (Some (''bytes='' @ ds @ ''-'')) w
                 = Inr \<lparr>status = 206,
                        payload = Audio
                          \<lparr>Content_Range = Some (''bytes '' @ show_nat (decimal ds) @ ''-''
                                                   @ show_nat (length bytes - 1) @ ''/''
                                                   @ show_nat (length bytes)),
                           Accept_Ranges = Some ''bytes'',
                           Content_Length = Num (int (length bytes) - int (decimal ds)),
                           Content_Type = opt_or (mime_getType L p) ''audio/mpeg''\<rparr>
                          (drop (decimal ds) bytes)\<rparr>)"
proof (intro conjI allI impI)
  have sp: "checked_span (Num 100) (Num 199) = Some (Span 100 (Some 199))"
    using checked_span_nat [of 100 199] by simp
  have "get_stream L tid (Some (''bytes='' @ ''100'' @ ''-'' @ ''199'')) w
           = Inr \<lparr>status = 206,
                  payload = Audio
                    \<lparr>Content_Range = Some (''bytes 100-199/'' @ show_nat (length bytes)),
                     Accept_Ranges = Some ''bytes'',
                     Content_Length = Num 100,
                     Content_Type = opt_or (mime_getType L p) ''audio/mpeg''\<rparr>
                    (take 100 (drop 100 bytes))\<rparr>"
    by (subst get_stream_range [OF assms(1-4)])
       (simp_all add: parseInt_100 parseInt_199 sp show_nat_100 show_nat_199)
  then show "get_stream L tid (Some ''bytes=100-199'') w
           = Inr \<lparr>status = 206,
                  payload = Audio
                    \<lparr>Content_Range = Some (''bytes 100-199/'' @ show_nat (length bytes)),
                     Accept_Ranges = Some ''bytes'',
                     Content_Length = Num 100,
                     Content_Type = opt_or (mime_getType L p) ''audio/mpeg''\<rparr>
                    (take 100 (drop 100 bytes))\<rparr>"
    by simp
  show "length (take 100 (drop 100 bytes)) = 100"
    using assms(5) by simp
  show "take 100 (drop 100 bytes) ! i = bytes ! (100 + i)" if "i < 100" for i
    using that assms(5) by simp
next
  fix ds :: string
  assume ds: "ds \<noteq> [] \<and> (\<forall>c \<in> set ds. is_digit c) \<and> decimal ds < length bytes
              \<and> length bytes < 2 ^ 53"
  then have nh: "CHR ''-'' \<notin> set ds"
    using digit_not_hyphen by blast
  define s where "s = decimal ds"
  define e where "e = length bytes - 1"
  from ds have lt: "s < length bytes" "length bytes < 2 ^ 53"
    by (simp_all add: s_def)
  then have s53: "s < 2 ^ 53" by simp
  from ds have "parseInt ds = js_int (int s)"
    by (simp add: parseInt_digits s_def)
  with s53 have start: "parseInt ds = Num (int s)"
    by (simp add: js_int_safe)
  from lt have endv: "Num (int (length bytes) - 1) = Num (int e)"
    by (simp add: e_def)
  from lt have le: "s \<le> e" "e < 2 ^ 53"
    by (simp_all add: e_def)
  with s53 have sp: "checked_span (Num (int s)) (Num (int e)) = Some (Span s (Some e))"
    by (simp add: checked_span_nat)
  from lt have body: "createReadStream bytes (Span s (Some e)) = drop s bytes"
    by (simp add: e_def)
  from lt have len: "int e - int s + 1 = int (length bytes) - int s"
    by (simp add: e_def)
  have "get_stream L tid (Some (''bytes='' @ ds @ ''-'' @ [])) w
                 = Inr \<lparr>status = 206,
                        payload = Audio
                          \<lparr>Content_Range = Some (''bytes '' @ show_nat s @ ''-''
                                                   @ show_nat e @ ''/''
                                                   @ show_nat (length bytes)),
                           Accept_Ranges = Some ''bytes'',
                           Content_Length = Num (int (length bytes) - int s),
                           Content_Type = opt_or (mime_getType L p) ''audio/mpeg''\<rparr>
                          (drop s bytes)\<rparr>"
    by (subst get_stream_range [OF assms(1-4) nh])
       (simp_all only: start endv sp body len range_headers.simps option.case
                       simp_thms if_False list.set empty_iff)
  then show "get_stream L tid (Some (''bytes='' @ ds @ ''-'')) w
                 = Inr \<lparr>status = 206,
                        payload = Audio
                          \<lparr>Content_Range = Some (''bytes '' @ show_nat (decimal ds) @ ''-''
                                                   @ show_nat (length bytes - 1) @ ''/''
                                                   @ show_nat (length bytes)),
                           Accept_Ranges = Some ''bytes'',
                           Content_Length = Num (int (length bytes) - int (decimal ds)),
                           Content_Type = opt_or (mime_getType L p) ''audio/mpeg''\<rparr>
                          (drop (decimal ds) bytes)\<rparr>"
    by (simp add: e_def s_def)
qed

lemma demo_found:
  "find (\<lambda>x. t_id x = ''t1'') (tracks (readDB demo_lib demo_world)) = Some demo_file_track"
  "t_type demo_file_track = ''file''"
  "t_path demo_file_track = Some ''1700000000000-song.mp3''"
  "upload_dir demo_world ''1700000000000-song.mp3'' = Some demo_bytes"
  by (simp_all add: tracks_demo upload_dir_demo demo_file_track_def)

lemma length_demo_bytes: "length demo_bytes = 250"
  by (simp add: demo_bytes_def)

lemma show_nat_250: "show_nat 250 = ''250''"
  by code_simp

lemma show_nat_240: "show_nat 240 = ''240''"
  by code_simp

lemma show_nat_249: "show_nat 249 = ''249''"
  by code_simp



lemma decimal_240: "decimal ''240'' = 240"
  by code_simp



lemma mime_demo: "opt_or (mime_getType demo_lib p) ''audio/mpeg'' = ''audio/mpeg''"
  by (simp add: demo_lib_def opt_or_def)

theorem get_stream_partial_content_witness:
  "200 \<le> length demo_bytes
   \<and> get_stream demo_lib ''t1'' (Some ''bytes=100-199'') demo_world
       = Inr \<lparr>status = 206,
              payload = Audio
                \<lparr>Content_Range = Some ''bytes 100-199/250'', Accept_Ranges = Some ''bytes'',
                 Content_Length = Num 100, Content_Type = ''audio/mpeg''\<rparr>
                (replicate 100 2)\<rparr>
   \<and> get_stream demo_lib ''t1'' (Some ''bytes=240-'') demo_world
       = Inr \<lparr>status = 206,
              payload = Audio
                \<lparr>Content_Range = Some ''bytes 240-249/250'', Accept_Ranges = Some ''bytes'',
                 Content_Length = Num 10, Content_Type = ''audio/mpeg''\<rparr>
                (replicate 10 3)\<rparr>"
proof -
  have big: "200 \<le> length demo_bytes"
    by (simp add: length_demo_bytes)
  note inst = get_stream_partial_content [OF demo_found big]
  have d: "''240'' \<noteq> [] \<and> (\<forall>c \<in> set ''240''. is_digit c) \<and> decimal ''240'' < length demo_bytes
           \<and> length demo_bytes < 2 ^ 53"
    by (simp add: is_digit_def decimal_240 length_demo_bytes)
  have b1: "take 100 (drop 100 demo_bytes) = replicate 100 2"
    by (simp add: demo_bytes_def)
  have b2: "drop 240 demo_bytes = replicate 10 3"
    by (simp add: demo_bytes_def)
  from inst have "get_stream demo_lib ''t1'' (Some ''bytes=100-199'') demo_world
       = Inr \<lparr>status = 206,
              payload = Audio
                \<lparr>Content_Range = Some ''bytes 100-199/250'', Accept_Ranges = Some ''bytes'',
                 Content_Length = Num 100, Content_Type = ''audio/mpeg''\<rparr>
                (replicate 100 2)\<rparr>"
    by (simp add: length_demo_bytes show_nat_250 mime_demo b1)
  moreover from inst [THEN conjunct2, THEN conjunct2, THEN conjunct2, THEN spec, THEN mp, OF d]
  have "get_stream demo_lib ''t1'' (Some (''bytes='' @ ''240'' @ ''-'')) demo_world
       = Inr \<lparr>status = 206,
              payload = Audio
                \<lparr>Content_Range = Some ''bytes 240-249/250'', Accept_Ranges = Some ''bytes'',
                 Content_Length = Num 10, Content_Type = ''audio/mpeg''\<rparr>
                (replicate 10 3)\<rparr>"
    by (simp add: length_demo_bytes show_nat_250 show_nat_240 show_nat_249 decimal_240
                  mime_demo b2)
  ultimately show ?thesis using big by simp
qed




end
